theory Spec2Isabelle
  imports Complex_Main
begin

section \<open>Python values and duck-typed measurement objects\<close>

text \<open>
  The library records material properties in a hierarchy of classes
  (level 1: abstract concept, level 2: derived value, level 3: raw measurement).
  The derivation methods of the level-2 classes reduce a list of measurement
  objects to one reportable number.

  Python floats are modelled as real numbers: the arithmetic of the formulas is
  exact here, rounding of IEEE doubles is not modelled.  A measurement object
  handed to a derivation method is duck-typed: the method only looks at some
  numeric attributes by name.  Such an object is modelled by its numeric
  attributes, a partial map from attribute name to value; an attribute that the
  object does not have is \<open>None\<close>.  Reading a missing attribute raises
  \<open>AttributeError\<close>.

  The attributes owned by the external object tree (\<open>manager\<close>, \<open>branch\<close>,
  \<open>id\<close>), set by \<open>treeObject.__init__\<close> outside this repository, are not part
  of the records below.
\<close>

datatype py_error = AttributeError | IndexError | ZeroDivisionError | TypeError

type_synonym measurement = "string \<rightharpoonup> real"


definition getattr :: "measurement \<Rightarrow> string \<Rightarrow> py_error + real" where
  "getattr m a = (case m a of None \<Rightarrow> Inl AttributeError | Some v \<Rightarrow> Inr v)"

section \<open>The class hierarchy as records\<close>

text \<open>materialProperty.py, properties/propertyCategory.py\<close>

record MaterialProperty =
  name :: string
  description :: string
  deviceId :: string

record PropertyCategory = MaterialProperty +
  materialId :: string
  categoryDescription :: string

text \<open>
  MechanicalProperty, RheologicalProperty, ThermalProperty and SurfaceProperty
  add no attribute to PropertyCategory; their objects have its record type.
  Each level-1 class adds the attribute \<open>abstractionLevel\<close>.
\<close>

record Hardness = PropertyCategory +
  abstractionLevel :: nat

record Viscosity = PropertyCategory +
  abstractionLevel :: nat

record TensileStrength = PropertyCategory +
  abstractionLevel :: nat

record ThermalExpansion = PropertyCategory +
  abstractionLevel :: nat

record MeltFlowIndex = PropertyCategory +
  abstractionLevel :: nat

record SolidSurfaceEnergy = PropertyCategory +
  abstractionLevel :: nat

record LiquidSurfaceTension = PropertyCategory +
  abstractionLevel :: nat

text \<open>SpecificGravity derives from MaterialProperty directly.\<close>

record SpecificGravity = MaterialProperty +
  materialId :: string
  abstractionLevel :: nat

text \<open>
  The three raw specific-gravity measurements derive from SpecificGravity
  directly (pycnometerMeasurement.py, hydrometerMeasurement.py,
  densityMeterMeasurement.py).
\<close>

record PycnometerMeasurement = SpecificGravity +
  referentialSpecificGravityId :: string
  sequenceNumber :: int
  emptyWeight :: real
  referenceWeight :: real
  sampleWeight :: real
  specificGravityValue :: real
  temperature :: real
  pycnometerVolume :: real
  measurementDate :: string
  operator :: string
  equipment :: string
  "notes" :: string

record HydrometerMeasurement = SpecificGravity +
  referentialSpecificGravityId :: string
  sequenceNumber :: int
  scaleReading :: real
  specificGravityValue :: real
  scaleType :: string
  temperature :: real
  calibrationTemperature :: real
  measurementDate :: string
  operator :: string
  equipment :: string
  "notes" :: string

record DensityMeterMeasurement = SpecificGravity +
  referentialSpecificGravityId :: string
  sequenceNumber :: int
  densityValue :: real
  specificGravityValue :: real
  oscillationFrequency :: real
  temperature :: real
  referenceDensity :: real
  measurementDate :: string
  operator :: string
  equipment :: string
  calibrationDate :: string
  "notes" :: string

text \<open>The level-2 classes (derived values).\<close>

record HardnessScale = Hardness +
  hardnessValue :: real
  scale :: string
  temperature :: real
  measurementDate :: string
  "notes" :: string

record KrebsViscosity = Viscosity +
  viscosityKU :: real
  temperature :: real
  measurementDate :: string
  "notes" :: string

record UltimateTensileStrength = TensileStrength +
  utsMPa :: real
  yieldStrengthMPa :: real
  elongationAtBreak :: real
  youngsModulusMPa :: real
  specimenType :: string
  testSpeed :: real
  temperature :: real
  measurementDate :: string
  "notes" :: string

record CoefficientOfThermalExpansion = ThermalExpansion +
  ctePpmPerC :: real
  temperatureRangeLowC :: real
  temperatureRangeHighC :: real
  expansionType :: string
  direction :: string
  measurementMethod :: string
  heatingRate :: real
  measurementDate :: string
  "notes" :: string

record MFIValue = MeltFlowIndex +
  mfiGramsPer10Min :: real
  testTemperature :: real
  testLoad :: real
  polymerType :: string
  measurementDate :: string
  "notes" :: string

record ReferentialSpecificGravity = SpecificGravity +
  specificGravityValue :: real
  referenceMaterial :: string
  referenceTemperature :: real
  sampleTemperature :: real
  measurementDate :: string
  "notes" :: string

record SurfaceTensionValue = LiquidSurfaceTension +
  surfaceTensionMNm :: real
  interfacialTensionMNm :: real
  secondPhase :: string
  measurementMethod :: string
  temperature :: real
  measurementDate :: string
  "notes" :: string

record CriticalSurfaceTension = SolidSurfaceEnergy +
  surfaceEnergyMNm :: real
  dispersiveComponent :: real
  polarComponent :: real
  calculationMethod :: string
  temperature :: real
  measurementDate :: string
  "notes" :: string

text \<open>The level-3 class of the hardness family (shoreMeasurement.py).\<close>

record ShoreMeasurement = HardnessScale +
  hardnessScaleId :: string
  sequenceNumber :: int
  hardnessReading :: real
  shoreType :: string
  readingTime :: real
  sampleThickness :: real
  locationOnSample :: string
  operator :: string
  equipment :: string
  openSourceImplementationExists :: bool

section \<open>Derivation methods\<close>

subsection \<open>Arithmetic mean of one guarded attribute\<close>

text \<open>
  HardnessScale, ReferentialSpecificGravity and SurfaceTensionValue run the same
  loop, each on its own attribute:
  \<^verbatim>\<open>
    for m in measurements:
        if hasattr(m, 'hardnessReading') and m.hardnessReading > 0:
            total += m.hardnessReading
            count += 1
  \<close>
  (\<open>total\<close> is a constant of HOL, so the accumulator is written \<open>total'\<close>.)
\<close>

fun mean_loop :: "string \<Rightarrow> measurement list \<Rightarrow> real \<Rightarrow> nat \<Rightarrow> real \<times> nat" where
  "mean_loop a [] total' count = (total', count)"
| "mean_loop a (m # ms) total' count =
     (case m a of
        None \<Rightarrow> mean_loop a ms total' count
      | Some v \<Rightarrow>
          if v > 0 then mean_loop a ms (total' + v) (count + 1)
          else mean_loop a ms total' count)"

definition HardnessScale_calculate_from_measurements ::
  "'a HardnessScale_scheme \<Rightarrow> measurement list \<Rightarrow> 'a HardnessScale_scheme \<times> real" where
  "HardnessScale_calculate_from_measurements self measurements =
     (if measurements = [] then (self, hardnessValue self)
      else
        let (total', count) = mean_loop ''hardnessReading'' measurements 0 0;
            self' = (if count > 0 then self\<lparr>hardnessValue := total' / real count\<rparr> else self)
        in (self', hardnessValue self'))"

definition ReferentialSpecificGravity_calculate_from_measurements ::
  "'a ReferentialSpecificGravity_scheme \<Rightarrow> measurement list
     \<Rightarrow> 'a ReferentialSpecificGravity_scheme \<times> real" where
  "ReferentialSpecificGravity_calculate_from_measurements self measurements =
     (if measurements = [] then (self, specificGravityValue self)
      else
        let (total_sg, count) = mean_loop ''specificGravityValue'' measurements 0 0;
            self' = (if count > 0 then self\<lparr>specificGravityValue := total_sg / real count\<rparr>
                     else self)
        in (self', specificGravityValue self'))"

definition SurfaceTensionValue_calculate_from_measurements ::
  "'a SurfaceTensionValue_scheme \<Rightarrow> measurement list
     \<Rightarrow> 'a SurfaceTensionValue_scheme \<times> real" where
  "SurfaceTensionValue_calculate_from_measurements self measurements =
     (if measurements = [] then (self, surfaceTensionMNm self)
      else
        let (total', count) = mean_loop ''surfaceTensionMNm'' measurements 0 0;
            self' = (if count > 0 then self\<lparr>surfaceTensionMNm := total' / real count\<rparr>
                     else self)
        in (self', surfaceTensionMNm self'))"

subsection \<open>Krebs viscosity from Stormer readings\<close>

text \<open>
  krebsViscosity.py reads \<open>measurement.grams\<close> and \<open>measurement.revolutions\<close>
  without a \<open>hasattr\<close> guard; \<open>and\<close> short-circuits, so \<open>revolutions\<close> is only
  read when \<open>grams > 0\<close>.  The only assignment to \<open>self\<close> comes after the loop,
  so an exception leaves the object as it was: the method returns the object
  after the call together with the outcome (the raised error or the returned value).
\<close>

fun stormer_loop :: "measurement list \<Rightarrow> real \<Rightarrow> nat \<Rightarrow> py_error + (real \<times> nat)" where
  "stormer_loop [] total_normalized_grams count = Inr (total_normalized_grams, count)"
| "stormer_loop (m # ms) total_normalized_grams count =
     (case getattr m ''grams'' of
        Inl e \<Rightarrow> Inl e
      | Inr grams \<Rightarrow>
          if grams > 0 then
            (case getattr m ''revolutions'' of
               Inl e \<Rightarrow> Inl e
             | Inr revolutions \<Rightarrow>
                 if revolutions > 0 then
                   stormer_loop ms (total_normalized_grams + grams * (200 / revolutions)) (count + 1)
                 else stormer_loop ms total_normalized_grams count)
          else stormer_loop ms total_normalized_grams count)"

definition KrebsViscosity_calculate_from_stormer_measurements ::
  "'a KrebsViscosity_scheme \<Rightarrow> measurement list
     \<Rightarrow> 'a KrebsViscosity_scheme \<times> (py_error + real)" where
  "KrebsViscosity_calculate_from_stormer_measurements self stormer_measurements =
     (if stormer_measurements = [] then (self, Inr (viscosityKU self))
      else
        case stormer_loop stormer_measurements 0 0 of
          Inl e \<Rightarrow> (self, Inl e)
        | Inr (total_normalized_grams, count) \<Rightarrow>
            let self' =
                  (if count > 0 then
                     self\<lparr>viscosityKU := ((total_normalized_grams / real count) * 2.08) + 15.8\<rparr>
                   else self)
            in (self', Inr (viscosityKU self')))"

subsection \<open>Melt flow index\<close>

fun mfi_loop :: "measurement list \<Rightarrow> real \<Rightarrow> nat \<Rightarrow> py_error + (real \<times> nat)" where
  "mfi_loop [] total_rate count = Inr (total_rate, count)"
| "mfi_loop (m # ms) total_rate count =
     (case getattr m ''extrudateMass'' of
        Inl e \<Rightarrow> Inl e
      | Inr extrudateMass \<Rightarrow>
          if extrudateMass > 0 then
            (case getattr m ''extrusionTime'' of
               Inl e \<Rightarrow> Inl e
             | Inr extrusionTime \<Rightarrow>
                 if extrusionTime > 0 then
                   mfi_loop ms (total_rate + (extrudateMass / extrusionTime) * 600) (count + 1)
                 else mfi_loop ms total_rate count)
          else mfi_loop ms total_rate count)"

definition MFIValue_calculate_from_measurements ::
  "'a MFIValue_scheme \<Rightarrow> measurement list \<Rightarrow> 'a MFIValue_scheme \<times> (py_error + real)" where
  "MFIValue_calculate_from_measurements self measurements =
     (if measurements = [] then (self, Inr (mfiGramsPer10Min self))
      else
        case mfi_loop measurements 0 0 of
          Inl e \<Rightarrow> (self, Inl e)
        | Inr (total_rate, count) \<Rightarrow>
            let self' =
                  (if count > 0 then self\<lparr>mfiGramsPer10Min := total_rate / real count\<rparr>
                   else self)
            in (self', Inr (mfiGramsPer10Min self')))"

subsection \<open>Ultimate tensile strength\<close>

fun uts_loop :: "measurement list \<Rightarrow> real \<Rightarrow> real \<Rightarrow> real" where
  "uts_loop [] cross_section_area_mm2 max_stress = max_stress"
| "uts_loop (m # ms) cross_section_area_mm2 max_stress =
     (case m ''forceN'' of
        None \<Rightarrow> uts_loop ms cross_section_area_mm2 max_stress
      | Some forceN \<Rightarrow>
          if forceN > 0 then
            (let stress = forceN / cross_section_area_mm2
             in if stress > max_stress then uts_loop ms cross_section_area_mm2 stress
                else uts_loop ms cross_section_area_mm2 max_stress)
          else uts_loop ms cross_section_area_mm2 max_stress)"

definition UltimateTensileStrength_calculate_from_measurements ::
  "'a UltimateTensileStrength_scheme \<Rightarrow> measurement list \<Rightarrow> real
     \<Rightarrow> 'a UltimateTensileStrength_scheme \<times> real" where
  "UltimateTensileStrength_calculate_from_measurements self measurements cross_section_area_mm2 =
     (if measurements = [] \<or> cross_section_area_mm2 \<le> 0 then (self, utsMPa self)
      else
        let max_stress = uts_loop measurements cross_section_area_mm2 0;
            self' = self\<lparr>utsMPa := max_stress\<rparr>
        in (self', utsMPa self'))"

subsection \<open>Coefficient of thermal expansion\<close>

text \<open>
  \<open>sorted(measurements, key=lambda m: m.temperatureC)\<close> evaluates the key of every
  element first (a missing \<open>temperatureC\<close> raises \<open>AttributeError\<close>), then sorts
  stably by the keys.  \<open>sort_key\<close> is a stable insertion sort.
\<close>

fun keys_of :: "string \<Rightarrow> measurement list \<Rightarrow> py_error + real list" where
  "keys_of a [] = Inr []"
| "keys_of a (m # ms) =
     (case getattr m a of
        Inl e \<Rightarrow> Inl e
      | Inr k \<Rightarrow> (case keys_of a ms of Inl e \<Rightarrow> Inl e | Inr ks \<Rightarrow> Inr (k # ks)))"

definition sorted_by :: "string \<Rightarrow> measurement list \<Rightarrow> py_error + measurement list" where
  "sorted_by a ms =
     (case keys_of a ms of
        Inl e \<Rightarrow> Inl e
      | Inr ks \<Rightarrow> Inr (map snd (sort_key fst (zip ks ms))))"

definition cte_formula :: "real \<Rightarrow> real \<Rightarrow> real \<Rightarrow> real" where
  "cte_formula delta_L original_length_mm delta_T =
     (delta_L / (original_length_mm * 1000)) / delta_T * 1000000"

definition CoefficientOfThermalExpansion_calculate_from_measurements ::
  "'a CoefficientOfThermalExpansion_scheme \<Rightarrow> measurement list \<Rightarrow> real
     \<Rightarrow> 'a CoefficientOfThermalExpansion_scheme \<times> (py_error + real)" where
  "CoefficientOfThermalExpansion_calculate_from_measurements self measurements original_length_mm =
     (if measurements = [] \<or> length measurements < 2 \<or> original_length_mm \<le> 0
      then (self, Inr (ctePpmPerC self))
      else
        case sorted_by ''temperatureC'' measurements of
          Inl e \<Rightarrow> (self, Inl e)
        | Inr [] \<Rightarrow> (self, Inl IndexError)
        | Inr (first' # rest) \<Rightarrow>
            let last' = last (first' # rest) in
            (case getattr last' ''dimensionChangeMicron'' of
               Inl e \<Rightarrow> (self, Inl e)
             | Inr last_change \<Rightarrow>
            (case getattr first' ''dimensionChangeMicron'' of
               Inl e \<Rightarrow> (self, Inl e)
             | Inr first_change \<Rightarrow>
            (case getattr last' ''temperatureC'' of
               Inl e \<Rightarrow> (self, Inl e)
             | Inr last_temperature \<Rightarrow>
            (case getattr first' ''temperatureC'' of
               Inl e \<Rightarrow> (self, Inl e)
             | Inr first_temperature \<Rightarrow>
                 let delta_L = last_change - first_change;
                     delta_T = last_temperature - first_temperature;
                     self' =
                       (if delta_T > 0 then
                          self\<lparr>ctePpmPerC := cte_formula delta_L original_length_mm delta_T,
                               temperatureRangeLowC := first_temperature,
                               temperatureRangeHighC := last_temperature\<rparr>
                        else self)
                 in (self', Inr (ctePpmPerC self')))))))"

subsection \<open>Owens-Wendt surface energy\<close>

definition radians :: "real \<Rightarrow> real" where
  "radians x = x * pi / 180"

definition CriticalSurfaceTension_calculate_from_owens_wendt ::
  "'a CriticalSurfaceTension_scheme \<Rightarrow> real \<Rightarrow> real
     \<Rightarrow> 'a CriticalSurfaceTension_scheme \<times> (real \<times> real \<times> real)" where
  "CriticalSurfaceTension_calculate_from_owens_wendt self water_angle diiodomethane_angle =
     (let water_total = 72.8;
          water_d = 21.8;
          water_p = 51.0;
          diio_total = 50.8;
          diio_d = 50.8;
          theta_w = radians water_angle;
          theta_d = radians diiodomethane_angle;
          self1 = self\<lparr>dispersiveComponent :=
                    ((diio_total * (1 + cos theta_d)) / (2 * sqrt diio_d))\<^sup>2\<rparr>;
          numerator = water_total * (1 + cos theta_w)
                        - 2 * sqrt (dispersiveComponent self1 * water_d);
          self2 = self1\<lparr>polarComponent := (numerator / (2 * sqrt water_p))\<^sup>2\<rparr>;
          self3 = self2\<lparr>surfaceEnergyMNm := dispersiveComponent self2 + polarComponent self2\<rparr>;
          self4 = self3\<lparr>calculationMethod := ''Owens-Wendt''\<rparr>
      in (self4, (surfaceEnergyMNm self4, dispersiveComponent self4, polarComponent self4)))"

section \<open>Construction and the abstraction level\<close>

text \<open>
  The 39 classes that carry \<open>ABSTRACTION_LEVEL\<close>, with the constant each class
  body defines.  Every \<open>__init__\<close> of these classes calls the \<open>__init__\<close> of its
  base class first and ends with \<open>self.abstractionLevel = self.ABSTRACTION_LEVEL\<close>;
  no \<open>__init__\<close> has a parameter for the level.  \<open>self.ABSTRACTION_LEVEL\<close> is
  looked up on the object, so it is the constant of the class being constructed,
  also inside the \<open>__init__\<close> of a base class: every \<open>_init\<close> below takes that
  class as its first argument \<open>self_cls\<close>.
\<close>

datatype property_class =
    Hardness_cls | HardnessScale_cls | ShoreMeasurement_cls
  | TensileStrength_cls | UltimateTensileStrength_cls | TensileMeasurement_cls
  | SpecificGravity_cls | ReferentialSpecificGravity_cls | PycnometerMeasurement_cls
  | HydrometerMeasurement_cls | DensityMeterMeasurement_cls
  | Elasticity_cls | StorageModulus_cls | DMAMeasurement_cls | RheometerMeasurement_cls
  | MeltFlowIndex_cls | MFIValue_cls | MFIMeasurement_cls
  | Viscosity_cls | KrebsViscosity_cls | StormerViscosity_cls
  | GlassTransition_cls | GlassTransitionTemp_cls | DMAGlassTransitionMeasurement_cls
  | ThermalExpansion_cls | CoefficientOfThermalExpansion_cls | TMAMeasurement_cls
  | SmokingPoint_cls | SmokingPointValue_cls | SmokingPointMeasurement_cls
  | MeltingPoint_cls | MeltingPointValue_cls | DSCMeltingMeasurement_cls
  | SolidSurfaceEnergy_cls | CriticalSurfaceTension_cls | ContactAngleMeasurement_cls
  | LiquidSurfaceTension_cls | SurfaceTensionValue_cls | WilhelmyMeasurement_cls

fun ABSTRACTION_LEVEL :: "property_class \<Rightarrow> nat" where
  "ABSTRACTION_LEVEL Hardness_cls = 1"
| "ABSTRACTION_LEVEL HardnessScale_cls = 2"
| "ABSTRACTION_LEVEL ShoreMeasurement_cls = 3"
| "ABSTRACTION_LEVEL TensileStrength_cls = 1"
| "ABSTRACTION_LEVEL UltimateTensileStrength_cls = 2"
| "ABSTRACTION_LEVEL TensileMeasurement_cls = 3"
| "ABSTRACTION_LEVEL SpecificGravity_cls = 1"
| "ABSTRACTION_LEVEL ReferentialSpecificGravity_cls = 2"
| "ABSTRACTION_LEVEL PycnometerMeasurement_cls = 3"
| "ABSTRACTION_LEVEL HydrometerMeasurement_cls = 3"
| "ABSTRACTION_LEVEL DensityMeterMeasurement_cls = 3"
| "ABSTRACTION_LEVEL Elasticity_cls = 1"
| "ABSTRACTION_LEVEL StorageModulus_cls = 2"
| "ABSTRACTION_LEVEL DMAMeasurement_cls = 3"
| "ABSTRACTION_LEVEL RheometerMeasurement_cls = 3"
| "ABSTRACTION_LEVEL MeltFlowIndex_cls = 1"
| "ABSTRACTION_LEVEL MFIValue_cls = 2"
| "ABSTRACTION_LEVEL MFIMeasurement_cls = 3"
| "ABSTRACTION_LEVEL Viscosity_cls = 1"
| "ABSTRACTION_LEVEL KrebsViscosity_cls = 2"
| "ABSTRACTION_LEVEL StormerViscosity_cls = 3"
| "ABSTRACTION_LEVEL GlassTransition_cls = 1"
| "ABSTRACTION_LEVEL GlassTransitionTemp_cls = 2"
| "ABSTRACTION_LEVEL DMAGlassTransitionMeasurement_cls = 3"
| "ABSTRACTION_LEVEL ThermalExpansion_cls = 1"
| "ABSTRACTION_LEVEL CoefficientOfThermalExpansion_cls = 2"
| "ABSTRACTION_LEVEL TMAMeasurement_cls = 3"
| "ABSTRACTION_LEVEL SmokingPoint_cls = 1"
| "ABSTRACTION_LEVEL SmokingPointValue_cls = 2"
| "ABSTRACTION_LEVEL SmokingPointMeasurement_cls = 3"
| "ABSTRACTION_LEVEL MeltingPoint_cls = 1"
| "ABSTRACTION_LEVEL MeltingPointValue_cls = 2"
| "ABSTRACTION_LEVEL DSCMeltingMeasurement_cls = 3"
| "ABSTRACTION_LEVEL SolidSurfaceEnergy_cls = 1"
| "ABSTRACTION_LEVEL CriticalSurfaceTension_cls = 2"
| "ABSTRACTION_LEVEL ContactAngleMeasurement_cls = 3"
| "ABSTRACTION_LEVEL LiquidSurfaceTension_cls = 1"
| "ABSTRACTION_LEVEL SurfaceTensionValue_cls = 2"
| "ABSTRACTION_LEVEL WilhelmyMeasurement_cls = 3"

subsection \<open>The constructors of the hardness family\<close>

text \<open>
  Each \<open>__init__\<close> takes the class of the object under construction and its
  keyword arguments (primed, since the attribute names are the record's
  selectors); the defaults of the signature are the arguments of the
  \<open>_default\<close> objects below.
\<close>

definition MaterialProperty_init :: "string \<Rightarrow> string \<Rightarrow> string \<Rightarrow> MaterialProperty" where
  "MaterialProperty_init name' description' deviceId' =
     \<lparr>name = name', description = description', deviceId = deviceId'\<rparr>"

definition PropertyCategory_init ::
  "string \<Rightarrow> string \<Rightarrow> string \<Rightarrow> string \<Rightarrow> PropertyCategory" where
  "PropertyCategory_init name' description' materialId' categoryDescription' =
     MaterialProperty.extend (MaterialProperty_init name' description' [])
       (PropertyCategory.fields materialId' categoryDescription')"

definition MechanicalProperty_init ::
  "string \<Rightarrow> string \<Rightarrow> string \<Rightarrow> string \<Rightarrow> PropertyCategory" where
  "MechanicalProperty_init name' description' materialId' categoryDescription' =
     PropertyCategory_init name' description' materialId' categoryDescription'"

definition Hardness_init :: "property_class \<Rightarrow> string \<Rightarrow> string \<Rightarrow> string \<Rightarrow> Hardness" where
  "Hardness_init self_cls name' description' materialId' =
     PropertyCategory.extend
       (MechanicalProperty_init name' description' materialId'
          ''Strength and resistance properties including hardness and tensile strength'')
       (Hardness.fields (ABSTRACTION_LEVEL self_cls))"

definition HardnessScale_init ::
  "property_class \<Rightarrow> string \<Rightarrow> real \<Rightarrow> string \<Rightarrow> real \<Rightarrow> string \<Rightarrow> string \<Rightarrow> HardnessScale" where
  "HardnessScale_init self_cls materialId' hardnessValue' scale' temperature' measurementDate'
       notes' =
     (let self = Hardness.extend
                   (Hardness_init self_cls ''Hardness Scale''
                      (''Derived hardness on '' @ scale' @ '' scale'') materialId')
                   (HardnessScale.fields hardnessValue' scale' temperature' measurementDate'
                      notes')
      in self\<lparr>Hardness.abstractionLevel := ABSTRACTION_LEVEL self_cls\<rparr>)"

definition ShoreMeasurement_init ::
  "property_class \<Rightarrow> string \<Rightarrow> string \<Rightarrow> int \<Rightarrow> real \<Rightarrow> string \<Rightarrow> real \<Rightarrow> real \<Rightarrow> string
     \<Rightarrow> real \<Rightarrow> string \<Rightarrow> string \<Rightarrow> string \<Rightarrow> string \<Rightarrow> bool \<Rightarrow> ShoreMeasurement" where
  "ShoreMeasurement_init self_cls materialId' hardnessScaleId' sequenceNumber' hardnessReading'
       shoreType' readingTime' sampleThickness' locationOnSample' temperature' measurementDate'
       operator' equipment' notes' openSourceImplementationExists' =
     (let self = HardnessScale.extend
                   (HardnessScale_init self_cls materialId' hardnessReading'
                      (''Shore '' @ shoreType') temperature' measurementDate' notes')
                   (ShoreMeasurement.fields hardnessScaleId' sequenceNumber' hardnessReading'
                      shoreType' readingTime' sampleThickness' locationOnSample' operator'
                      equipment' openSourceImplementationExists')
      in self\<lparr>Hardness.abstractionLevel := ABSTRACTION_LEVEL self_cls\<rparr>)"

definition Hardness_default :: Hardness where
  "Hardness_default =
     Hardness_init Hardness_cls ''Hardness''
       ''Material resistance to localized plastic deformation'' []"

definition HardnessScale_default :: HardnessScale where
  "HardnessScale_default = HardnessScale_init HardnessScale_cls [] 0 ''Shore A'' 23 [] []"

definition ShoreMeasurement_default :: ShoreMeasurement where
  "ShoreMeasurement_default =
     ShoreMeasurement_init ShoreMeasurement_cls [] [] 0 0 ''A'' 1 6 [] 23 [] [] [] [] True"

subsection \<open>The constructors of the other derived-value classes\<close>

definition RheologicalProperty_init ::
  "string \<Rightarrow> string \<Rightarrow> string \<Rightarrow> string \<Rightarrow> PropertyCategory" where
  "RheologicalProperty_init name' description' materialId' categoryDescription' =
     PropertyCategory_init name' description' materialId' categoryDescription'"

definition ThermalProperty_init ::
  "string \<Rightarrow> string \<Rightarrow> string \<Rightarrow> string \<Rightarrow> PropertyCategory" where
  "ThermalProperty_init name' description' materialId' categoryDescription' =
     PropertyCategory_init name' description' materialId' categoryDescription'"

definition SurfaceProperty_init ::
  "string \<Rightarrow> string \<Rightarrow> string \<Rightarrow> string \<Rightarrow> PropertyCategory" where
  "SurfaceProperty_init name' description' materialId' categoryDescription' =
     PropertyCategory_init name' description' materialId' categoryDescription'"

definition Viscosity_init :: "property_class \<Rightarrow> string \<Rightarrow> string \<Rightarrow> string \<Rightarrow> Viscosity" where
  "Viscosity_init self_cls name' description' materialId' =
     PropertyCategory.extend
       (RheologicalProperty_init name' description' materialId'
          ''Flow and deformation properties including viscosity, elasticity, and melt flow'')
       (Viscosity.fields (ABSTRACTION_LEVEL self_cls))"

definition MeltFlowIndex_init ::
  "property_class \<Rightarrow> string \<Rightarrow> string \<Rightarrow> string \<Rightarrow> MeltFlowIndex" where
  "MeltFlowIndex_init self_cls name' description' materialId' =
     PropertyCategory.extend
       (RheologicalProperty_init name' description' materialId'
          ''Flow and deformation properties including viscosity, elasticity, and melt flow'')
       (MeltFlowIndex.fields (ABSTRACTION_LEVEL self_cls))"

definition TensileStrength_init ::
  "property_class \<Rightarrow> string \<Rightarrow> string \<Rightarrow> string \<Rightarrow> TensileStrength" where
  "TensileStrength_init self_cls name' description' materialId' =
     PropertyCategory.extend
       (MechanicalProperty_init name' description' materialId'
          ''Strength and resistance properties including hardness and tensile strength'')
       (TensileStrength.fields (ABSTRACTION_LEVEL self_cls))"

definition ThermalExpansion_init ::
  "property_class \<Rightarrow> string \<Rightarrow> string \<Rightarrow> string \<Rightarrow> ThermalExpansion" where
  "ThermalExpansion_init self_cls name' description' materialId' =
     PropertyCategory.extend
       (ThermalProperty_init name' description' materialId'
          ''Temperature-dependent properties including melting point, Tg, and thermal expansion'')
       (ThermalExpansion.fields (ABSTRACTION_LEVEL self_cls))"

definition SolidSurfaceEnergy_init ::
  "property_class \<Rightarrow> string \<Rightarrow> string \<Rightarrow> string \<Rightarrow> SolidSurfaceEnergy" where
  "SolidSurfaceEnergy_init self_cls name' description' materialId' =
     PropertyCategory.extend
       (SurfaceProperty_init name' description' materialId'
          ''Interfacial properties including surface energy and surface tension'')
       (SolidSurfaceEnergy.fields (ABSTRACTION_LEVEL self_cls))"

definition LiquidSurfaceTension_init ::
  "property_class \<Rightarrow> string \<Rightarrow> string \<Rightarrow> string \<Rightarrow> LiquidSurfaceTension" where
  "LiquidSurfaceTension_init self_cls name' description' materialId' =
     PropertyCategory.extend
       (SurfaceProperty_init name' description' materialId'
          ''Interfacial properties including surface energy and surface tension'')
       (LiquidSurfaceTension.fields (ABSTRACTION_LEVEL self_cls))"

definition SpecificGravity_init ::
  "property_class \<Rightarrow> string \<Rightarrow> string \<Rightarrow> string \<Rightarrow> SpecificGravity" where
  "SpecificGravity_init self_cls name' description' materialId' =
     MaterialProperty.extend (MaterialProperty_init name' description' [])
       (SpecificGravity.fields materialId' (ABSTRACTION_LEVEL self_cls))"

definition KrebsViscosity_init ::
  "property_class \<Rightarrow> string \<Rightarrow> real \<Rightarrow> real \<Rightarrow> string \<Rightarrow> string \<Rightarrow> KrebsViscosity" where
  "KrebsViscosity_init self_cls materialId' viscosityKU' temperature' measurementDate' notes' =
     (let self = Viscosity.extend
                   (Viscosity_init self_cls ''Krebs Viscosity''
                      ''Derived viscosity in Krebs Units (KU)'' materialId')
                   (KrebsViscosity.fields viscosityKU' temperature' measurementDate' notes')
      in self\<lparr>Viscosity.abstractionLevel := ABSTRACTION_LEVEL self_cls\<rparr>)"

definition UltimateTensileStrength_init ::
  "property_class \<Rightarrow> string \<Rightarrow> real \<Rightarrow> real \<Rightarrow> real \<Rightarrow> real \<Rightarrow> string \<Rightarrow> real \<Rightarrow> real
     \<Rightarrow> string \<Rightarrow> string \<Rightarrow> UltimateTensileStrength" where
  "UltimateTensileStrength_init self_cls materialId' utsMPa' yieldStrengthMPa' elongationAtBreak'
       youngsModulusMPa' specimenType' testSpeed' temperature' measurementDate' notes' =
     (let self = TensileStrength.extend
                   (TensileStrength_init self_cls ''Ultimate Tensile Strength''
                      ''Derived UTS value in MPa'' materialId')
                   (UltimateTensileStrength.fields utsMPa' yieldStrengthMPa' elongationAtBreak'
                      youngsModulusMPa' specimenType' testSpeed' temperature' measurementDate'
                      notes')
      in self\<lparr>TensileStrength.abstractionLevel := ABSTRACTION_LEVEL self_cls\<rparr>)"

definition CoefficientOfThermalExpansion_init ::
  "property_class \<Rightarrow> string \<Rightarrow> real \<Rightarrow> real \<Rightarrow> real \<Rightarrow> string \<Rightarrow> string \<Rightarrow> string \<Rightarrow> real
     \<Rightarrow> string \<Rightarrow> string \<Rightarrow> CoefficientOfThermalExpansion" where
  "CoefficientOfThermalExpansion_init self_cls materialId' ctePpmPerC' temperatureRangeLowC'
       temperatureRangeHighC' expansionType' direction' measurementMethod' heatingRate'
       measurementDate' notes' =
     (let self = ThermalExpansion.extend
                   (ThermalExpansion_init self_cls ''Coefficient of Thermal Expansion''
                      (''Derived CTE in ppm/'' @ [CHR 0xC2, CHR 0xB0] @ ''C'') materialId')
                   (CoefficientOfThermalExpansion.fields ctePpmPerC' temperatureRangeLowC'
                      temperatureRangeHighC' expansionType' direction' measurementMethod'
                      heatingRate' measurementDate' notes')
      in self\<lparr>ThermalExpansion.abstractionLevel := ABSTRACTION_LEVEL self_cls\<rparr>)"

definition MFIValue_init ::
  "property_class \<Rightarrow> string \<Rightarrow> real \<Rightarrow> real \<Rightarrow> real \<Rightarrow> string \<Rightarrow> string \<Rightarrow> string \<Rightarrow> MFIValue" where
  "MFIValue_init self_cls materialId' mfiGramsPer10Min' testTemperature' testLoad' polymerType'
       measurementDate' notes' =
     (let self = MeltFlowIndex.extend
                   (MeltFlowIndex_init self_cls ''MFI Value''
                      ''Derived Melt Flow Index in g/10min'' materialId')
                   (MFIValue.fields mfiGramsPer10Min' testTemperature' testLoad' polymerType'
                      measurementDate' notes')
      in self\<lparr>MeltFlowIndex.abstractionLevel := ABSTRACTION_LEVEL self_cls\<rparr>)"

definition ReferentialSpecificGravity_init ::
  "property_class \<Rightarrow> string \<Rightarrow> real \<Rightarrow> string \<Rightarrow> real \<Rightarrow> real \<Rightarrow> string \<Rightarrow> string
     \<Rightarrow> ReferentialSpecificGravity" where
  "ReferentialSpecificGravity_init self_cls materialId' specificGravityValue' referenceMaterial'
       referenceTemperature' sampleTemperature' measurementDate' notes' =
     (let self = SpecificGravity.extend
                   (SpecificGravity_init self_cls ''Referential Specific Gravity''
                      ''Specific gravity normalized against reference material'' materialId')
                   (ReferentialSpecificGravity.fields specificGravityValue' referenceMaterial'
                      referenceTemperature' sampleTemperature' measurementDate' notes')
      in self\<lparr>SpecificGravity.abstractionLevel := ABSTRACTION_LEVEL self_cls\<rparr>)"

definition SurfaceTensionValue_init ::
  "property_class \<Rightarrow> string \<Rightarrow> real \<Rightarrow> real \<Rightarrow> string \<Rightarrow> string \<Rightarrow> real \<Rightarrow> string \<Rightarrow> string
     \<Rightarrow> SurfaceTensionValue" where
  "SurfaceTensionValue_init self_cls materialId' surfaceTensionMNm' interfacialTensionMNm'
       secondPhase' measurementMethod' temperature' measurementDate' notes' =
     (let self = LiquidSurfaceTension.extend
                   (LiquidSurfaceTension_init self_cls ''Surface Tension Value''
                      ''Derived surface tension in mN/m'' materialId')
                   (SurfaceTensionValue.fields surfaceTensionMNm' interfacialTensionMNm'
                      secondPhase' measurementMethod' temperature' measurementDate' notes')
      in self\<lparr>LiquidSurfaceTension.abstractionLevel := ABSTRACTION_LEVEL self_cls\<rparr>)"

definition CriticalSurfaceTension_init ::
  "property_class \<Rightarrow> string \<Rightarrow> real \<Rightarrow> real \<Rightarrow> real \<Rightarrow> string \<Rightarrow> real \<Rightarrow> string \<Rightarrow> string
     \<Rightarrow> CriticalSurfaceTension" where
  "CriticalSurfaceTension_init self_cls materialId' surfaceEnergyMNm' dispersiveComponent'
       polarComponent' calculationMethod' temperature' measurementDate' notes' =
     (let self = SolidSurfaceEnergy.extend
                   (SolidSurfaceEnergy_init self_cls ''Critical Surface Tension''
                      ''Derived surface energy in mN/m'' materialId')
                   (CriticalSurfaceTension.fields surfaceEnergyMNm' dispersiveComponent'
                      polarComponent' calculationMethod' temperature' measurementDate' notes')
      in self\<lparr>SolidSurfaceEnergy.abstractionLevel := ABSTRACTION_LEVEL self_cls\<rparr>)"

text \<open>The objects built when every keyword argument is left at its default.\<close>

definition KrebsViscosity_default :: KrebsViscosity where
  "KrebsViscosity_default = KrebsViscosity_init KrebsViscosity_cls [] 0 25 [] []"

definition UltimateTensileStrength_default :: UltimateTensileStrength where
  "UltimateTensileStrength_default =
     UltimateTensileStrength_init UltimateTensileStrength_cls [] 0 0 0 0 ''Type I'' 5 23 [] []"

definition CoefficientOfThermalExpansion_default :: CoefficientOfThermalExpansion where
  "CoefficientOfThermalExpansion_default =
     CoefficientOfThermalExpansion_init CoefficientOfThermalExpansion_cls [] 0 25 100
       ''linear'' ''isotropic'' ''TMA'' 5 [] []"

definition MFIValue_default :: MFIValue where
  "MFIValue_default = MFIValue_init MFIValue_cls [] 0 190 2.16 [] [] []"

definition ReferentialSpecificGravity_default :: ReferentialSpecificGravity where
  "ReferentialSpecificGravity_default =
     ReferentialSpecificGravity_init ReferentialSpecificGravity_cls [] 0 ''water_4C'' 4 25 [] []"


definition CriticalSurfaceTension_default :: CriticalSurfaceTension where
  "CriticalSurfaceTension_default =
     CriticalSurfaceTension_init CriticalSurfaceTension_cls [] 0 0 0 ''Owens-Wendt'' 23 [] []"

section \<open>The readings that count\<close>

text \<open>
  The values a derivation aggregates, written as list comprehensions over the
  input: the positive values of one attribute, the normalized grams of the
  Stormer readings whose \<open>grams\<close> and \<open>revolutions\<close> are both positive, the rates
  of the extrusions whose mass and time are both positive.  A record is
  \<open>readable\<close> by a loop without \<open>hasattr\<close> guard when it has every attribute the
  loop reads on it.
\<close>

definition positive_values :: "string \<Rightarrow> measurement list \<Rightarrow> real list" where
  "positive_values a ms = filter (\<lambda>v. v > 0) (List.map_filter (\<lambda>m. m a) ms)"

definition stormer_readable :: "measurement \<Rightarrow> bool" where
  "stormer_readable m =
     (case m ''grams'' of None \<Rightarrow> False
      | Some grams \<Rightarrow> if grams > 0 then m ''revolutions'' \<noteq> None else True)"

definition stormer_normalized :: "measurement list \<Rightarrow> real list" where
  "stormer_normalized ms =
     List.map_filter
       (\<lambda>m. case (m ''grams'', m ''revolutions'') of
               (Some grams, Some revolutions) \<Rightarrow>
                 if grams > 0 \<and> revolutions > 0 then Some (grams * (200 / revolutions))
                 else None
             | _ \<Rightarrow> None) ms"

definition mfi_readable :: "measurement \<Rightarrow> bool" where
  "mfi_readable m =
     (case m ''extrudateMass'' of None \<Rightarrow> False
      | Some extrudateMass \<Rightarrow>
          if extrudateMass > 0 then m ''extrusionTime'' \<noteq> None else True)"

definition mfi_rates :: "measurement list \<Rightarrow> real list" where
  "mfi_rates ms =
     List.map_filter
       (\<lambda>m. case (m ''extrudateMass'', m ''extrusionTime'') of
               (Some extrudateMass, Some extrusionTime) \<Rightarrow>
                 if extrudateMass > 0 \<and> extrusionTime > 0
                 then Some ((extrudateMass / extrusionTime) * 600)
                 else None
             | _ \<Rightarrow> None) ms"

definition mean :: "real list \<Rightarrow> real" where
  "mean vs = sum_list vs / real (length vs)"

definition stormer_reading :: "measurement \<Rightarrow> real \<times> real \<Rightarrow> bool" where
  "stormer_reading m gr =
     (case gr of (grams, revolutions) \<Rightarrow>
        m ''grams'' = Some grams \<and> m ''revolutions'' = Some revolutions \<and>
        grams > 0 \<and> revolutions > 0)"

definition not_positive :: "string \<Rightarrow> measurement \<Rightarrow> bool" where
  "not_positive a m = (case m a of None \<Rightarrow> True | Some v \<Rightarrow> \<not> v > 0)"



definition temperatureC_of :: "measurement \<Rightarrow> real" where
  "temperatureC_of m = the (m ''temperatureC'')"

definition dimensionChangeMicron_of :: "measurement \<Rightarrow> real" where
  "dimensionChangeMicron_of m = the (m ''dimensionChangeMicron'')"

definition tma_reading :: "measurement \<Rightarrow> bool" where
  "tma_reading m = (m ''temperatureC'' \<noteq> None \<and> m ''dimensionChangeMicron'' \<noteq> None)"

definition stormer_counted :: "measurement \<Rightarrow> bool" where
  "stormer_counted m =
     (case (m ''grams'', m ''revolutions'') of
        (Some grams, Some revolutions) \<Rightarrow> grams > 0 \<and> revolutions > 0
      | _ \<Rightarrow> False)"

definition mfi_counted :: "measurement \<Rightarrow> bool" where
  "mfi_counted m =
     (case (m ''extrudateMass'', m ''extrusionTime'') of
        (Some extrudateMass, Some extrusionTime) \<Rightarrow> extrudateMass > 0 \<and> extrusionTime > 0
      | _ \<Rightarrow> False)"

definition CoefficientOfThermalExpansion_stored7 :: CoefficientOfThermalExpansion where
  "CoefficientOfThermalExpansion_stored7 =
     CoefficientOfThermalExpansion_init CoefficientOfThermalExpansion_cls [] 7 25 100
       ''linear'' ''isotropic'' ''TMA'' 5 [] []"

definition owens_wendt_dispersive :: "real \<Rightarrow> real" where
  "owens_wendt_dispersive diiodomethane_angle =
     ((50.8 * (1 + cos (radians diiodomethane_angle))) / (2 * sqrt 50.8))\<^sup>2"

definition owens_wendt_polar :: "real \<Rightarrow> real \<Rightarrow> real" where
  "owens_wendt_polar water_angle dispersive =
     ((72.8 * (1 + cos (radians water_angle)) - 2 * sqrt (dispersive * 21.8))
        / (2 * sqrt 51.0))\<^sup>2"


definition skipped_record :: measurement where
  "skipped_record = [''grams'' \<mapsto> 0, ''extrudateMass'' \<mapsto> -1, ''forceN'' \<mapsto> -5]"

section \<open>Measurement objects whose attributes are not all numbers\<close>





















section \<open>The remaining classes of the property hierarchy\<close>

text \<open>
  The records and constructors of the other classes that carry
  \<open>ABSTRACTION_LEVEL\<close>, and their methods.  A constructor passes to the
  \<open>__init__\<close> of its base class the keyword arguments written in the source and
  the defaults of the base class's signature for the others.
\<close>

record Elasticity = PropertyCategory +
  abstractionLevel :: nat

record GlassTransition = PropertyCategory +
  abstractionLevel :: nat

record MeltingPoint = PropertyCategory +
  abstractionLevel :: nat

record SmokingPoint = PropertyCategory +
  abstractionLevel :: nat

record StorageModulus = Elasticity +
  storageModulusPa :: real
  lossModulusPa :: real
  lossFactor :: real
  frequency :: real
  temperature :: real
  measurementDate :: string
  "notes" :: string

record StormerViscosity = Viscosity +
  krebsViscosityId :: string
  sequenceNumber :: int
  time :: real
  revolutions :: int
  grams :: real
  temperature :: real
  measurementDate :: string
  operator :: string
  equipment :: string
  "notes" :: string

record GlassTransitionTemp = GlassTransition +
  tgCelsius :: real
  tgOnset :: real
  tgMidpoint :: real
  tgEndset :: real
  deltaCp :: real
  measurementMethod :: string
  heatingRate :: real
  frequency :: real
  measurementDate :: string
  "notes" :: string

record MeltingPointValue = MeltingPoint +
  meltingPointC :: real
  meltingPointOnsetC :: real
  meltingPointPeakC :: real
  heatOfFusionJg :: real
  crystallinityPercent :: real
  measurementMethod :: string
  heatingRate :: real
  measurementDate :: string
  "notes" :: string

record SmokingPointValue = SmokingPoint +
  smokingPointC :: real
  flashPointC :: real
  firePointC :: real
  measurementMethod :: string
  heatingRate :: real
  measurementDate :: string
  "notes" :: string

record TensileMeasurement = UltimateTensileStrength +
  utsId :: string
  sequenceNumber :: int
  forceN :: real
  displacementMm :: real
  time :: real
  gaugeLength :: real
  specimenWidth :: real
  specimenThickness :: real
  extensometerStrain :: real
  operator :: string
  equipment :: string
  openSourceImplementationExists :: bool

record DMAMeasurement = StorageModulus +
  storageModulusId :: string
  sequenceNumber :: int
  strain :: real
  stress :: real
  phaseAngle :: real
  sampleLength :: real
  sampleWidth :: real
  sampleThickness :: real
  clampType :: string
  operator :: string
  equipment :: string
  openSourceImplementationExists :: bool

record RheometerMeasurement = StorageModulus +
  storageModulusId :: string
  sequenceNumber :: int
  geometry :: string
  gapDistance :: real
  strain :: real
  shearRate :: real
  torque :: real
  normalForce :: real
  operator :: string
  equipment :: string
  openSourceImplementationExists :: bool

record MFIMeasurement = MFIValue +
  mfiValueId :: string
  sequenceNumber :: int
  extrusionTime :: real
  extrudateMass :: real
  preheatTime :: real
  barrelTemperature :: real
  dieDiameter :: real
  dieLength :: real
  operator :: string
  equipment :: string
  openSourceImplementationExists :: bool

record WilhelmyMeasurement = SurfaceTensionValue +
  surfaceTensionValueId :: string
  sequenceNumber :: int
  forceMN :: real
  platePerimeterMm :: real
  plateMaterial :: string
  contactAngle :: real
  immersionDepthMm :: real
  operator :: string
  equipment :: string
  openSourceImplementationExists :: bool

record ContactAngleMeasurement = CriticalSurfaceTension +
  surfaceEnergyId :: string
  sequenceNumber :: int
  contactAngle :: real
  probeLiquid :: string
  probeLiquidSurfaceTension :: real
  dropVolume :: real
  measurementType :: string
  leftAngle :: real
  rightAngle :: real
  humidity :: real
  operator :: string
  equipment :: string
  software :: string
  openSourceImplementationExists :: bool

record DMAGlassTransitionMeasurement = GlassTransitionTemp +
  glassTransitionTempId :: string
  sequenceNumber :: int
  temperatureC :: real
  storageModulusPa :: real
  lossModulusPa :: real
  tanDelta :: real
  strain :: real
  clampType :: string
  sampleLength :: real
  sampleWidth :: real
  sampleThickness :: real
  operator :: string
  equipment :: string
  openSourceImplementationExists :: bool

record DSCMeltingMeasurement = MeltingPointValue +
  meltingPointValueId :: string
  sequenceNumber :: int
  temperatureC :: real
  heatFlowMW :: real
  time :: real
  sampleMassMg :: real
  panType :: string
  atmosphere :: string
  flowRateMlMin :: real
  operator :: string
  equipment :: string
  openSourceImplementationExists :: bool

record SmokingPointMeasurement = SmokingPointValue +
  smokingPointValueId :: string
  sequenceNumber :: int
  observedTemperatureC :: real
  cupType :: string
  sampleVolumeMl :: real
  ambientTemperature :: real
  humidity :: real
  detectionMethod :: string
  operator :: string
  equipment :: string
  openSourceImplementationExists :: bool

record TMAMeasurement = CoefficientOfThermalExpansion +
  cteId :: string
  sequenceNumber :: int
  temperatureC :: real
  dimensionChangeMicron :: real
  time :: real
  originalLengthMm :: real
  probeForceN :: real
  probeType :: string
  atmosphere :: string
  operator :: string
  equipment :: string
  openSourceImplementationExists :: bool

definition DensityMeterMeasurement_init ::
  "property_class \<Rightarrow> string \<Rightarrow> string \<Rightarrow> int \<Rightarrow> real \<Rightarrow> real \<Rightarrow> real \<Rightarrow> real \<Rightarrow> real \<Rightarrow> string \<Rightarrow> string \<Rightarrow> string \<Rightarrow> string \<Rightarrow> string \<Rightarrow> DensityMeterMeasurement" where
  "DensityMeterMeasurement_init self_cls materialId' referentialSpecificGravityId'
     sequenceNumber' densityValue' specificGravityValue' oscillationFrequency' temperature'
     referenceDensity' measurementDate' operator' equipment' calibrationDate' notes' =
     (let self = SpecificGravity.extend
                     (SpecificGravity_init self_cls ''Density Meter Measurement''
                       ''Raw digital density meter measurement'' materialId')
                     (DensityMeterMeasurement.fields referentialSpecificGravityId'
                       sequenceNumber' densityValue' specificGravityValue'
                       oscillationFrequency' temperature' referenceDensity' measurementDate'
                       operator' equipment' calibrationDate' notes')
      in self\<lparr>SpecificGravity.abstractionLevel := ABSTRACTION_LEVEL self_cls\<rparr>)"

definition HydrometerMeasurement_init ::
  "property_class \<Rightarrow> string \<Rightarrow> string \<Rightarrow> int \<Rightarrow> real \<Rightarrow> real \<Rightarrow> string \<Rightarrow> real \<Rightarrow> real \<Rightarrow> string \<Rightarrow> string \<Rightarrow> string \<Rightarrow> string \<Rightarrow> HydrometerMeasurement" where
  "HydrometerMeasurement_init self_cls materialId' referentialSpecificGravityId'
     sequenceNumber' scaleReading' specificGravityValue' scaleType' temperature'
     calibrationTemperature' measurementDate' operator' equipment' notes' =
     (let self = SpecificGravity.extend
                     (SpecificGravity_init self_cls ''Hydrometer Measurement''
                       ''Raw hydrometer specific gravity measurement'' materialId')
                     (HydrometerMeasurement.fields referentialSpecificGravityId'
                       sequenceNumber' scaleReading' specificGravityValue' scaleType'
                       temperature' calibrationTemperature' measurementDate' operator'
                       equipment' notes')
      in self\<lparr>SpecificGravity.abstractionLevel := ABSTRACTION_LEVEL self_cls\<rparr>)"

definition PycnometerMeasurement_init ::
  "property_class \<Rightarrow> string \<Rightarrow> string \<Rightarrow> int \<Rightarrow> real \<Rightarrow> real \<Rightarrow> real \<Rightarrow> real \<Rightarrow> real \<Rightarrow> real \<Rightarrow> string \<Rightarrow> string \<Rightarrow> string \<Rightarrow> string \<Rightarrow> PycnometerMeasurement" where
  "PycnometerMeasurement_init self_cls materialId' referentialSpecificGravityId'
     sequenceNumber' emptyWeight' referenceWeight' sampleWeight' specificGravityValue'
     temperature' pycnometerVolume' measurementDate' operator' equipment' notes' =
     (let self = SpecificGravity.extend
                     (SpecificGravity_init self_cls ''Pycnometer Measurement''
                       ''Raw pycnometer specific gravity measurement'' materialId')
                     (PycnometerMeasurement.fields referentialSpecificGravityId'
                       sequenceNumber' emptyWeight' referenceWeight' sampleWeight'
                       specificGravityValue' temperature' pycnometerVolume' measurementDate'
                       operator' equipment' notes')
      in self\<lparr>SpecificGravity.abstractionLevel := ABSTRACTION_LEVEL self_cls\<rparr>)"

definition Elasticity_init ::
  "property_class \<Rightarrow> string \<Rightarrow> string \<Rightarrow> string \<Rightarrow> Elasticity" where
  "Elasticity_init self_cls name' description' materialId' =
     PropertyCategory.extend
                     (RheologicalProperty_init name' description' materialId'
                       ''Flow and deformation properties including viscosity, elasticity, and melt flow'')
                     (Elasticity.fields (ABSTRACTION_LEVEL self_cls))"

definition GlassTransition_init ::
  "property_class \<Rightarrow> string \<Rightarrow> string \<Rightarrow> string \<Rightarrow> GlassTransition" where
  "GlassTransition_init self_cls name' description' materialId' =
     PropertyCategory.extend
                     (ThermalProperty_init name' description' materialId'
                       ''Temperature-dependent properties including melting point, Tg, and thermal expansion'')
                     (GlassTransition.fields (ABSTRACTION_LEVEL self_cls))"

definition MeltingPoint_init ::
  "property_class \<Rightarrow> string \<Rightarrow> string \<Rightarrow> string \<Rightarrow> MeltingPoint" where
  "MeltingPoint_init self_cls name' description' materialId' =
     PropertyCategory.extend
                     (ThermalProperty_init name' description' materialId'
                       ''Temperature-dependent properties including melting point, Tg, and thermal expansion'')
                     (MeltingPoint.fields (ABSTRACTION_LEVEL self_cls))"

definition SmokingPoint_init ::
  "property_class \<Rightarrow> string \<Rightarrow> string \<Rightarrow> string \<Rightarrow> SmokingPoint" where
  "SmokingPoint_init self_cls name' description' materialId' =
     PropertyCategory.extend
                     (ThermalProperty_init name' description' materialId'
                       ''Temperature-dependent properties including melting point, Tg, and thermal expansion'')
                     (SmokingPoint.fields (ABSTRACTION_LEVEL self_cls))"

definition StorageModulus_init ::
  "property_class \<Rightarrow> string \<Rightarrow> real \<Rightarrow> real \<Rightarrow> real \<Rightarrow> real \<Rightarrow> real \<Rightarrow> string \<Rightarrow> string \<Rightarrow> StorageModulus" where
  "StorageModulus_init self_cls materialId' storageModulusPa' lossModulusPa' lossFactor'
     frequency' temperature' measurementDate' notes' =
     (let self = Elasticity.extend
                     (Elasticity_init self_cls ''Storage Modulus''
                       (''Derived storage modulus G'' @ [CHR 0x27] @ '' in Pascals'')
                       materialId')
                     (StorageModulus.fields storageModulusPa' lossModulusPa' lossFactor'
                       frequency' temperature' measurementDate' notes')
      in self\<lparr>Elasticity.abstractionLevel := ABSTRACTION_LEVEL self_cls\<rparr>)"

definition StormerViscosity_init ::
  "property_class \<Rightarrow> string \<Rightarrow> string \<Rightarrow> int \<Rightarrow> real \<Rightarrow> int \<Rightarrow> real \<Rightarrow> real \<Rightarrow> string \<Rightarrow> string \<Rightarrow> string \<Rightarrow> string \<Rightarrow> StormerViscosity" where
  "StormerViscosity_init self_cls materialId' krebsViscosityId' sequenceNumber' time'
     revolutions' grams' temperature' measurementDate' operator' equipment' notes' =
     (let self = Viscosity.extend
                     (Viscosity_init self_cls ''Stormer Viscosity''
                       ''Raw Stormer viscometer measurement datapoint'' materialId')
                     (StormerViscosity.fields krebsViscosityId' sequenceNumber' time'
                       revolutions' grams' temperature' measurementDate' operator' equipment'
                       notes')
      in self\<lparr>Viscosity.abstractionLevel := ABSTRACTION_LEVEL self_cls\<rparr>)"

definition GlassTransitionTemp_init ::
  "property_class \<Rightarrow> string \<Rightarrow> real \<Rightarrow> real \<Rightarrow> real \<Rightarrow> real \<Rightarrow> real \<Rightarrow> string \<Rightarrow> real \<Rightarrow> real \<Rightarrow> string \<Rightarrow> string \<Rightarrow> GlassTransitionTemp" where
  "GlassTransitionTemp_init self_cls materialId' tgCelsius' tgOnset' tgMidpoint' tgEndset'
     deltaCp' measurementMethod' heatingRate' frequency' measurementDate' notes' =
     (let self = GlassTransition.extend
                     (GlassTransition_init self_cls ''Glass Transition Temperature''
                       ''Derived Tg value in Celsius'' materialId')
                     (GlassTransitionTemp.fields tgCelsius' tgOnset' tgMidpoint' tgEndset'
                       deltaCp' measurementMethod' heatingRate' frequency' measurementDate'
                       notes')
      in self\<lparr>GlassTransition.abstractionLevel := ABSTRACTION_LEVEL self_cls\<rparr>)"

definition MeltingPointValue_init ::
  "property_class \<Rightarrow> string \<Rightarrow> real \<Rightarrow> real \<Rightarrow> real \<Rightarrow> real \<Rightarrow> real \<Rightarrow> string \<Rightarrow> real \<Rightarrow> string \<Rightarrow> string \<Rightarrow> MeltingPointValue" where
  "MeltingPointValue_init self_cls materialId' meltingPointC' meltingPointOnsetC'
     meltingPointPeakC' heatOfFusionJg' crystallinityPercent' measurementMethod' heatingRate'
     measurementDate' notes' =
     (let self = MeltingPoint.extend
                     (MeltingPoint_init self_cls ''Melting Point Value''
                       ''Derived melting temperature in Celsius'' materialId')
                     (MeltingPointValue.fields meltingPointC' meltingPointOnsetC'
                       meltingPointPeakC' heatOfFusionJg' crystallinityPercent'
                       measurementMethod' heatingRate' measurementDate' notes')
      in self\<lparr>MeltingPoint.abstractionLevel := ABSTRACTION_LEVEL self_cls\<rparr>)"

definition SmokingPointValue_init ::
  "property_class \<Rightarrow> string \<Rightarrow> real \<Rightarrow> real \<Rightarrow> real \<Rightarrow> string \<Rightarrow> real \<Rightarrow> string \<Rightarrow> string \<Rightarrow> SmokingPointValue" where
  "SmokingPointValue_init self_cls materialId' smokingPointC' flashPointC' firePointC'
     measurementMethod' heatingRate' measurementDate' notes' =
     (let self = SmokingPoint.extend
                     (SmokingPoint_init self_cls ''Smoking Point Value''
                       ''Derived smoking point in Celsius'' materialId')
                     (SmokingPointValue.fields smokingPointC' flashPointC' firePointC'
                       measurementMethod' heatingRate' measurementDate' notes')
      in self\<lparr>SmokingPoint.abstractionLevel := ABSTRACTION_LEVEL self_cls\<rparr>)"

definition TensileMeasurement_init ::
  "property_class \<Rightarrow> string \<Rightarrow> string \<Rightarrow> int \<Rightarrow> real \<Rightarrow> real \<Rightarrow> real \<Rightarrow> real \<Rightarrow> real \<Rightarrow> real \<Rightarrow> real \<Rightarrow> real \<Rightarrow> real \<Rightarrow> string \<Rightarrow> string \<Rightarrow> string \<Rightarrow> string \<Rightarrow> bool \<Rightarrow> TensileMeasurement" where
  "TensileMeasurement_init self_cls materialId' utsId' sequenceNumber' forceN' displacementMm'
     time' gaugeLength' specimenWidth' specimenThickness' extensometerStrain' testSpeed'
     temperature' measurementDate' operator' equipment' notes' openSourceImplementationExists'
     =
     (let self = UltimateTensileStrength.extend
                     (UltimateTensileStrength_init self_cls materialId' 0 0 0 0 ''Type I''
                       testSpeed' temperature' measurementDate' notes')
                     (TensileMeasurement.fields utsId' sequenceNumber' forceN' displacementMm'
                       time' gaugeLength' specimenWidth' specimenThickness' extensometerStrain'
                       operator' equipment' openSourceImplementationExists')
      in self\<lparr>TensileStrength.abstractionLevel := ABSTRACTION_LEVEL self_cls\<rparr>)"

definition DMAMeasurement_init ::
  "property_class \<Rightarrow> string \<Rightarrow> string \<Rightarrow> int \<Rightarrow> real \<Rightarrow> real \<Rightarrow> real \<Rightarrow> real \<Rightarrow> real \<Rightarrow> real \<Rightarrow> real \<Rightarrow> real \<Rightarrow> real \<Rightarrow> string \<Rightarrow> real \<Rightarrow> string \<Rightarrow> string \<Rightarrow> string \<Rightarrow> string \<Rightarrow> bool \<Rightarrow> DMAMeasurement" where
  "DMAMeasurement_init self_cls materialId' storageModulusId' sequenceNumber' strain' stress'
     phaseAngle' storageModulusPa' lossModulusPa' frequency' sampleLength' sampleWidth'
     sampleThickness' clampType' temperature' measurementDate' operator' equipment' notes'
     openSourceImplementationExists' =
     (let self = StorageModulus.extend
                     (StorageModulus_init self_cls materialId' storageModulusPa' lossModulusPa'
                       0 frequency' temperature' measurementDate' notes')
                     (DMAMeasurement.fields storageModulusId' sequenceNumber' strain' stress'
                       phaseAngle' sampleLength' sampleWidth' sampleThickness' clampType'
                       operator' equipment' openSourceImplementationExists')
      in self\<lparr>Elasticity.abstractionLevel := ABSTRACTION_LEVEL self_cls\<rparr>)"

definition RheometerMeasurement_init ::
  "property_class \<Rightarrow> string \<Rightarrow> string \<Rightarrow> int \<Rightarrow> string \<Rightarrow> real \<Rightarrow> real \<Rightarrow> real \<Rightarrow> real \<Rightarrow> real \<Rightarrow> real \<Rightarrow> real \<Rightarrow> real \<Rightarrow> real \<Rightarrow> string \<Rightarrow> string \<Rightarrow> string \<Rightarrow> string \<Rightarrow> bool \<Rightarrow> RheometerMeasurement" where
  "RheometerMeasurement_init self_cls materialId' storageModulusId' sequenceNumber' geometry'
     gapDistance' strain' shearRate' torque' normalForce' storageModulusPa' lossModulusPa'
     frequency' temperature' measurementDate' operator' equipment' notes'
     openSourceImplementationExists' =
     (let self = StorageModulus.extend
                     (StorageModulus_init self_cls materialId' storageModulusPa' lossModulusPa'
                       0 frequency' temperature' measurementDate' notes')
                     (RheometerMeasurement.fields storageModulusId' sequenceNumber' geometry'
                       gapDistance' strain' shearRate' torque' normalForce' operator'
                       equipment' openSourceImplementationExists')
      in self\<lparr>Elasticity.abstractionLevel := ABSTRACTION_LEVEL self_cls\<rparr>)"

definition MFIMeasurement_init ::
  "property_class \<Rightarrow> string \<Rightarrow> string \<Rightarrow> int \<Rightarrow> real \<Rightarrow> real \<Rightarrow> real \<Rightarrow> real \<Rightarrow> real \<Rightarrow> real \<Rightarrow> real \<Rightarrow> string \<Rightarrow> string \<Rightarrow> string \<Rightarrow> string \<Rightarrow> bool \<Rightarrow> MFIMeasurement" where
  "MFIMeasurement_init self_cls materialId' mfiValueId' sequenceNumber' extrusionTime'
     extrudateMass' preheatTime' barrelTemperature' testLoad' dieDiameter' dieLength'
     measurementDate' operator' equipment' notes' openSourceImplementationExists' =
     (let self = MFIValue.extend
                     (MFIValue_init self_cls materialId' 0 barrelTemperature' testLoad' []
                       measurementDate' notes')
                     (MFIMeasurement.fields mfiValueId' sequenceNumber' extrusionTime'
                       extrudateMass' preheatTime' barrelTemperature' dieDiameter' dieLength'
                       operator' equipment' openSourceImplementationExists');
          self1 = self\<lparr>MeltFlowIndex.abstractionLevel := ABSTRACTION_LEVEL self_cls\<rparr>
      in if MFIMeasurement.extrusionTime self1 > 0 then
           self1\<lparr>mfiGramsPer10Min :=
                   MFIMeasurement.extrudateMass self1 / MFIMeasurement.extrusionTime self1 * 600\<rparr>
         else self1)"

text \<open>
  \<open>_calculate_surface_tension\<close> has no return statement; the constructor calls it
  after assigning the level.
\<close>

definition WilhelmyMeasurement_calculate_surface_tension ::
  "WilhelmyMeasurement \<Rightarrow> WilhelmyMeasurement" where
  "WilhelmyMeasurement_calculate_surface_tension self =
     (if WilhelmyMeasurement.platePerimeterMm self > 0 then
        (let cos_theta = cos (radians (WilhelmyMeasurement.contactAngle self))
         in if cos_theta > 0 then
              self\<lparr>surfaceTensionMNm :=
                     WilhelmyMeasurement.forceMN self
                       / (WilhelmyMeasurement.platePerimeterMm self * cos_theta)\<rparr>
            else self)
      else self)"

definition WilhelmyMeasurement_init ::
  "property_class \<Rightarrow> string \<Rightarrow> string \<Rightarrow> int \<Rightarrow> real \<Rightarrow> real \<Rightarrow> string \<Rightarrow> real \<Rightarrow> real \<Rightarrow> real \<Rightarrow> string \<Rightarrow> string \<Rightarrow> string \<Rightarrow> string \<Rightarrow> bool \<Rightarrow> WilhelmyMeasurement" where
  "WilhelmyMeasurement_init self_cls materialId' surfaceTensionValueId' sequenceNumber'
     forceMN' platePerimeterMm' plateMaterial' contactAngle' immersionDepthMm' temperature'
     measurementDate' operator' equipment' notes' openSourceImplementationExists' =
     (let self = SurfaceTensionValue.extend
                     (SurfaceTensionValue_init self_cls materialId' 0 0 ''air''
                       ''Wilhelmy plate'' temperature' measurementDate' notes')
                     (WilhelmyMeasurement.fields surfaceTensionValueId' sequenceNumber'
                       forceMN' platePerimeterMm' plateMaterial' contactAngle'
                       immersionDepthMm' operator' equipment' openSourceImplementationExists');
          self1 = self\<lparr>LiquidSurfaceTension.abstractionLevel := ABSTRACTION_LEVEL self_cls\<rparr>
      in WilhelmyMeasurement_calculate_surface_tension self1)"

definition ContactAngleMeasurement_init ::
  "property_class \<Rightarrow> string \<Rightarrow> string \<Rightarrow> int \<Rightarrow> real \<Rightarrow> string \<Rightarrow> real \<Rightarrow> real \<Rightarrow> string \<Rightarrow> real \<Rightarrow> real \<Rightarrow> real \<Rightarrow> real \<Rightarrow> string \<Rightarrow> string \<Rightarrow> string \<Rightarrow> string \<Rightarrow> string \<Rightarrow> bool \<Rightarrow> ContactAngleMeasurement" where
  "ContactAngleMeasurement_init self_cls materialId' surfaceEnergyId' sequenceNumber'
     contactAngle' probeLiquid' probeLiquidSurfaceTension' dropVolume' measurementType'
     leftAngle' rightAngle' humidity' temperature' measurementDate' operator' equipment'
     software' notes' openSourceImplementationExists' =
     (let self = CriticalSurfaceTension.extend
                     (CriticalSurfaceTension_init self_cls materialId' 0 0 0 ''Owens-Wendt''
                       temperature' measurementDate' notes')
                     (ContactAngleMeasurement.fields surfaceEnergyId' sequenceNumber'
                       contactAngle' probeLiquid' probeLiquidSurfaceTension' dropVolume'
                       measurementType' leftAngle' rightAngle' humidity' operator' equipment'
                       software' openSourceImplementationExists')
      in self\<lparr>SolidSurfaceEnergy.abstractionLevel := ABSTRACTION_LEVEL self_cls\<rparr>)"

definition DMAGlassTransitionMeasurement_init ::
  "property_class \<Rightarrow> string \<Rightarrow> string \<Rightarrow> int \<Rightarrow> real \<Rightarrow> real \<Rightarrow> real \<Rightarrow> real \<Rightarrow> real \<Rightarrow> real \<Rightarrow> string \<Rightarrow> real \<Rightarrow> real \<Rightarrow> real \<Rightarrow> real \<Rightarrow> string \<Rightarrow> string \<Rightarrow> string \<Rightarrow> string \<Rightarrow> bool \<Rightarrow> DMAGlassTransitionMeasurement" where
  "DMAGlassTransitionMeasurement_init self_cls materialId' glassTransitionTempId'
     sequenceNumber' temperatureC' storageModulusPa' lossModulusPa' tanDelta' frequency'
     strain' clampType' sampleLength' sampleWidth' sampleThickness' heatingRate'
     measurementDate' operator' equipment' notes' openSourceImplementationExists' =
     (let self = GlassTransitionTemp.extend
                     (GlassTransitionTemp_init self_cls materialId' 0 0 0 0 0
                       (''DMA-tan'' @ [CHR 0xCE] @ [CHR 0xB4]) heatingRate' frequency'
                       measurementDate' notes')
                     (DMAGlassTransitionMeasurement.fields glassTransitionTempId'
                       sequenceNumber' temperatureC' storageModulusPa' lossModulusPa' tanDelta'
                       strain' clampType' sampleLength' sampleWidth' sampleThickness' operator'
                       equipment' openSourceImplementationExists')
      in self\<lparr>GlassTransition.abstractionLevel := ABSTRACTION_LEVEL self_cls\<rparr>)"

definition DSCMeltingMeasurement_init ::
  "property_class \<Rightarrow> string \<Rightarrow> string \<Rightarrow> int \<Rightarrow> real \<Rightarrow> real \<Rightarrow> real \<Rightarrow> real \<Rightarrow> string \<Rightarrow> string \<Rightarrow> real \<Rightarrow> real \<Rightarrow> string \<Rightarrow> string \<Rightarrow> string \<Rightarrow> string \<Rightarrow> bool \<Rightarrow> DSCMeltingMeasurement" where
  "DSCMeltingMeasurement_init self_cls materialId' meltingPointValueId' sequenceNumber'
     temperatureC' heatFlowMW' time' sampleMassMg' panType' atmosphere' flowRateMlMin'
     heatingRate' measurementDate' operator' equipment' notes' openSourceImplementationExists'
     =
     (let self = MeltingPointValue.extend
                     (MeltingPointValue_init self_cls materialId' 0 0 0 0 0 ''DSC''
                       heatingRate' measurementDate' notes')
                     (DSCMeltingMeasurement.fields meltingPointValueId' sequenceNumber'
                       temperatureC' heatFlowMW' time' sampleMassMg' panType' atmosphere'
                       flowRateMlMin' operator' equipment' openSourceImplementationExists')
      in self\<lparr>MeltingPoint.abstractionLevel := ABSTRACTION_LEVEL self_cls\<rparr>)"

definition SmokingPointMeasurement_init ::
  "property_class \<Rightarrow> string \<Rightarrow> string \<Rightarrow> int \<Rightarrow> real \<Rightarrow> string \<Rightarrow> real \<Rightarrow> real \<Rightarrow> real \<Rightarrow> real \<Rightarrow> string \<Rightarrow> string \<Rightarrow> string \<Rightarrow> string \<Rightarrow> string \<Rightarrow> bool \<Rightarrow> SmokingPointMeasurement" where
  "SmokingPointMeasurement_init self_cls materialId' smokingPointValueId' sequenceNumber'
     observedTemperatureC' cupType' sampleVolumeMl' heatingRate' ambientTemperature' humidity'
     detectionMethod' measurementDate' operator' equipment' notes'
     openSourceImplementationExists' =
     (let self = SmokingPointValue.extend
                     (SmokingPointValue_init self_cls materialId' observedTemperatureC' 0 0
                       detectionMethod' heatingRate' measurementDate' notes')
                     (SmokingPointMeasurement.fields smokingPointValueId' sequenceNumber'
                       observedTemperatureC' cupType' sampleVolumeMl' ambientTemperature'
                       humidity' detectionMethod' operator' equipment'
                       openSourceImplementationExists')
      in self\<lparr>SmokingPoint.abstractionLevel := ABSTRACTION_LEVEL self_cls\<rparr>)"

definition TMAMeasurement_init ::
  "property_class \<Rightarrow> string \<Rightarrow> string \<Rightarrow> int \<Rightarrow> real \<Rightarrow> real \<Rightarrow> real \<Rightarrow> real \<Rightarrow> real \<Rightarrow> string \<Rightarrow> string \<Rightarrow> real \<Rightarrow> string \<Rightarrow> string \<Rightarrow> string \<Rightarrow> string \<Rightarrow> bool \<Rightarrow> TMAMeasurement" where
  "TMAMeasurement_init self_cls materialId' cteId' sequenceNumber' temperatureC'
     dimensionChangeMicron' time' originalLengthMm' probeForceN' probeType' atmosphere'
     heatingRate' measurementDate' operator' equipment' notes' openSourceImplementationExists'
     =
     (let self = CoefficientOfThermalExpansion.extend
                     (CoefficientOfThermalExpansion_init self_cls materialId' 0 25 100
                       ''linear'' ''isotropic'' ''TMA'' heatingRate' measurementDate' notes')
                     (TMAMeasurement.fields cteId' sequenceNumber' temperatureC'
                       dimensionChangeMicron' time' originalLengthMm' probeForceN' probeType'
                       atmosphere' operator' equipment' openSourceImplementationExists')
      in self\<lparr>ThermalExpansion.abstractionLevel := ABSTRACTION_LEVEL self_cls\<rparr>)"


subsection \<open>Methods of single objects\<close>

text \<open>
  A method that assigns nothing returns the object as it was, with its result.
  \<open>convert_to_specific_gravity\<close> divides by \<open>130.0 + scaleReading\<close> and by
  \<open>131.5 + scaleReading\<close> without a guard, which raises \<open>ZeroDivisionError\<close> when
  the sum is 0.
\<close>

definition TensileMeasurement_calculate_engineering_stress ::
  "TensileMeasurement \<Rightarrow> TensileMeasurement \<times> real" where
  "TensileMeasurement_calculate_engineering_stress self =
     (let area = TensileMeasurement.specimenWidth self * TensileMeasurement.specimenThickness self
      in (self, if area > 0 then TensileMeasurement.forceN self / area else 0))"

definition TensileMeasurement_calculate_engineering_strain ::
  "TensileMeasurement \<Rightarrow> TensileMeasurement \<times> real" where
  "TensileMeasurement_calculate_engineering_strain self =
     (self, if TensileMeasurement.gaugeLength self > 0
            then (TensileMeasurement.displacementMm self / TensileMeasurement.gaugeLength self) * 100
            else 0)"

definition PycnometerMeasurement_calculate_specific_gravity ::
  "PycnometerMeasurement \<Rightarrow> PycnometerMeasurement \<times> real" where
  "PycnometerMeasurement_calculate_specific_gravity self =
     (let reference_mass = PycnometerMeasurement.referenceWeight self
                             - PycnometerMeasurement.emptyWeight self;
          sample_mass = PycnometerMeasurement.sampleWeight self
                          - PycnometerMeasurement.emptyWeight self;
          self' = (if reference_mass > 0
                   then self\<lparr>PycnometerMeasurement.specificGravityValue :=
                               sample_mass / reference_mass\<rparr>
                   else self)
      in (self', PycnometerMeasurement.specificGravityValue self'))"

definition HydrometerMeasurement_convert_to_specific_gravity ::
  "HydrometerMeasurement \<Rightarrow> HydrometerMeasurement \<times> (py_error + real)" where
  "HydrometerMeasurement_convert_to_specific_gravity self =
     (let scaleType' = HydrometerMeasurement.scaleType self;
          scaleReading' = HydrometerMeasurement.scaleReading self;
          assign = (\<lambda>v. let self' = self\<lparr>HydrometerMeasurement.specificGravityValue := v\<rparr>
                        in (self', Inr (HydrometerMeasurement.specificGravityValue self')))
      in if scaleType' = ''SG'' then assign scaleReading'
         else if scaleType' = ''Baume_heavy'' then
           (if scaleReading' < 145 then assign (145 / (145 - scaleReading'))
            else (self, Inr (HydrometerMeasurement.specificGravityValue self)))
         else if scaleType' = ''Baume_light'' then
           (if 130 + scaleReading' = 0 then (self, Inl ZeroDivisionError)
            else assign (140 / (130 + scaleReading')))
         else if scaleType' = ''API'' then
           (if 131.5 + scaleReading' = 0 then (self, Inl ZeroDivisionError)
            else assign (141.5 / (131.5 + scaleReading')))
         else assign scaleReading')"

definition DensityMeterMeasurement_calculate_specific_gravity ::
  "DensityMeterMeasurement \<Rightarrow> DensityMeterMeasurement \<times> real" where
  "DensityMeterMeasurement_calculate_specific_gravity self =
     (let self' =
            (if DensityMeterMeasurement.referenceDensity self > 0
                \<and> DensityMeterMeasurement.densityValue self > 0
             then self\<lparr>DensityMeterMeasurement.specificGravityValue :=
                         DensityMeterMeasurement.densityValue self
                           / DensityMeterMeasurement.referenceDensity self\<rparr>
             else self)
      in (self', DensityMeterMeasurement.specificGravityValue self'))"

definition StorageModulus_calculate_complex_modulus ::
  "'a StorageModulus_scheme \<Rightarrow> 'a StorageModulus_scheme \<times> real" where
  "StorageModulus_calculate_complex_modulus self =
     (self, sqrt ((StorageModulus.storageModulusPa self)\<^sup>2
                    + (StorageModulus.lossModulusPa self)\<^sup>2))"

definition StorageModulus_calculate_loss_factor ::
  "'a StorageModulus_scheme \<Rightarrow> 'a StorageModulus_scheme \<times> real" where
  "StorageModulus_calculate_loss_factor self =
     (let self' =
            (if StorageModulus.storageModulusPa self > 0
             then self\<lparr>StorageModulus.lossFactor :=
                         StorageModulus.lossModulusPa self
                           / StorageModulus.storageModulusPa self\<rparr>
             else self)
      in (self', StorageModulus.lossFactor self'))"

definition DMAGlassTransitionMeasurement_calculate_tan_delta ::
  "DMAGlassTransitionMeasurement \<Rightarrow> DMAGlassTransitionMeasurement \<times> real" where
  "DMAGlassTransitionMeasurement_calculate_tan_delta self =
     (let self' =
            (if DMAGlassTransitionMeasurement.storageModulusPa self > 0
             then self\<lparr>DMAGlassTransitionMeasurement.tanDelta :=
                         DMAGlassTransitionMeasurement.lossModulusPa self
                           / DMAGlassTransitionMeasurement.storageModulusPa self\<rparr>
             else self)
      in (self', DMAGlassTransitionMeasurement.tanDelta self'))"

definition TMAMeasurement_calculate_strain_percent ::
  "TMAMeasurement \<Rightarrow> TMAMeasurement \<times> real" where
  "TMAMeasurement_calculate_strain_percent self =
     (self, if TMAMeasurement.originalLengthMm self > 0
            then (TMAMeasurement.dimensionChangeMicron self
                    / (TMAMeasurement.originalLengthMm self * 1000)) * 100
            else 0)"

definition DSCMeltingMeasurement_normalize_heat_flow ::
  "DSCMeltingMeasurement \<Rightarrow> DSCMeltingMeasurement \<times> real" where
  "DSCMeltingMeasurement_normalize_heat_flow self =
     (self, if DSCMeltingMeasurement.sampleMassMg self > 0
            then DSCMeltingMeasurement.heatFlowMW self / DSCMeltingMeasurement.sampleMassMg self
            else 0)"

definition MeltingPointValue_calculate_crystallinity ::
  "'a MeltingPointValue_scheme \<Rightarrow> real \<Rightarrow> 'a MeltingPointValue_scheme \<times> real" where
  "MeltingPointValue_calculate_crystallinity self reference_heat_of_fusion =
     (let self' =
            (if reference_heat_of_fusion > 0
             then self\<lparr>MeltingPointValue.crystallinityPercent :=
                         (MeltingPointValue.heatOfFusionJg self / reference_heat_of_fusion) * 100\<rparr>
             else self)
      in (self', MeltingPointValue.crystallinityPercent self'))"

definition ContactAngleMeasurement_calculate_average_angle ::
  "ContactAngleMeasurement \<Rightarrow> ContactAngleMeasurement \<times> real" where
  "ContactAngleMeasurement_calculate_average_angle self =
     (let self' =
            (if ContactAngleMeasurement.leftAngle self > 0
                \<and> ContactAngleMeasurement.rightAngle self > 0
             then self\<lparr>ContactAngleMeasurement.contactAngle :=
                         (ContactAngleMeasurement.leftAngle self
                            + ContactAngleMeasurement.rightAngle self) / 2\<rparr>
             else self)
      in (self', ContactAngleMeasurement.contactAngle self'))"

section \<open>The loops compute these aggregates\<close>

lemma positive_values_Nil [simp]: "positive_values a [] = []"
  by (simp add: positive_values_def)

lemma positive_values_Cons:
  "positive_values a (m # ms) =
     (case m a of None \<Rightarrow> positive_values a ms
      | Some v \<Rightarrow> if v > 0 then v # positive_values a ms else positive_values a ms)"
  by (simp add: positive_values_def split: option.splits)

lemma mean_loop_eq:
  "mean_loop a ms t c =
     (t + sum_list (positive_values a ms), c + length (positive_values a ms))"
  by (induction ms arbitrary: t c) (auto simp: positive_values_Cons split: option.splits)

lemma stormer_normalized_Nil [simp]: "stormer_normalized [] = []"
  by (simp add: stormer_normalized_def)

lemma stormer_normalized_Cons:
  "stormer_normalized (m # ms) =
     (case (m ''grams'', m ''revolutions'') of
        (Some g, Some r) \<Rightarrow>
          if g > 0 \<and> r > 0
          then g * (200 / r) # stormer_normalized ms
          else stormer_normalized ms
      | _ \<Rightarrow> stormer_normalized ms)"
  by (simp add: stormer_normalized_def split: option.splits)

lemma stormer_loop_eq:
  "list_all stormer_readable ms \<Longrightarrow>
   stormer_loop ms t c =
     Inr (t + sum_list (stormer_normalized ms), c + length (stormer_normalized ms))"
  by (induction ms arbitrary: t c)
     (auto simp: stormer_normalized_Cons stormer_readable_def getattr_def
           split: option.splits if_splits)

lemma stormer_loop_raises:
  "\<not> list_all stormer_readable ms \<Longrightarrow> stormer_loop ms t c = Inl AttributeError"
  by (induction ms arbitrary: t c)
     (auto simp: stormer_readable_def getattr_def split: option.splits if_splits)

lemma mfi_rates_Nil [simp]: "mfi_rates [] = []"
  by (simp add: mfi_rates_def)

lemma mfi_rates_Cons:
  "mfi_rates (m # ms) =
     (case (m ''extrudateMass'', m ''extrusionTime'') of
        (Some mass, Some t) \<Rightarrow>
          if mass > 0 \<and> t > 0
          then (mass / t) * 600 # mfi_rates ms
          else mfi_rates ms
      | _ \<Rightarrow> mfi_rates ms)"
  by (simp add: mfi_rates_def split: option.splits)

lemma mfi_loop_eq:
  "list_all mfi_readable ms \<Longrightarrow>
   mfi_loop ms t c = Inr (t + sum_list (mfi_rates ms), c + length (mfi_rates ms))"
  by (induction ms arbitrary: t c)
     (auto simp: mfi_rates_Cons mfi_readable_def getattr_def split: option.splits if_splits)

lemma mfi_loop_raises:
  "\<not> list_all mfi_readable ms \<Longrightarrow> mfi_loop ms t c = Inl AttributeError"
  by (induction ms arbitrary: t c)
     (auto simp: mfi_readable_def getattr_def split: option.splits if_splits)

lemma uts_loop_eq:
  "uts_loop ms a mx = Max (insert mx ((\<lambda>f. f / a) ` set (positive_values ''forceN'' ms)))"
proof (induction ms arbitrary: mx)
  case Nil
  show ?case by simp
next
  case (Cons m ms)
  let ?S = "(\<lambda>f. f / a) ` set (positive_values ''forceN'' ms)"
  have fin: "finite ?S" by simp
  show ?case
  proof (cases "m ''forceN''")
    case None
    then show ?thesis by (simp add: Cons.IH positive_values_Cons)
  next
    case (Some f)
    show ?thesis
    proof (cases "f > 0")
      case False
      then show ?thesis using Some by (simp add: Cons.IH positive_values_Cons)
    next
      case True
      have "Max (insert mx (insert (f / a) ?S)) = Max (insert (max mx (f / a)) ?S)"
        using fin by (cases "?S = {}") (auto simp: max.assoc max.commute)
      then show ?thesis using Some True
        by (auto simp: Cons.IH positive_values_Cons Let_def max_def insert_commute)
    qed
  qed
qed

lemma Max_insert_0_pos:
  assumes "finite S" "S \<noteq> {}" "\<forall>x\<in>S. (0::real) < x"
  shows "Max (insert 0 S) = Max S"
proof -
  have "Max S \<in> S" using assms by simp
  then have "0 < Max S" using assms by blast
  then show ?thesis using assms by (simp add: less_imp_le)
qed

lemma positive_values_pos: "v \<in> set (positive_values a ms) \<Longrightarrow> 0 < v"
  by (simp add: positive_values_def)

lemma HardnessScale_mean:
  "measurements \<noteq> [] \<Longrightarrow>
   HardnessScale_calculate_from_measurements self measurements =
     (let vs = positive_values ''hardnessReading'' measurements in
      if vs = [] then (self, hardnessValue self)
      else (self\<lparr>hardnessValue := mean vs\<rparr>, mean vs))"
  by (simp add: HardnessScale_calculate_from_measurements_def mean_loop_eq Let_def mean_def)

lemma ReferentialSpecificGravity_mean:
  "measurements \<noteq> [] \<Longrightarrow>
   ReferentialSpecificGravity_calculate_from_measurements self measurements =
     (let vs = positive_values ''specificGravityValue'' measurements in
      if vs = [] then (self, specificGravityValue self)
      else (self\<lparr>specificGravityValue := mean vs\<rparr>, mean vs))"
  by (simp add: ReferentialSpecificGravity_calculate_from_measurements_def mean_loop_eq
        Let_def mean_def)


lemma KrebsViscosity_value:
  "stormer_measurements \<noteq> [] \<Longrightarrow> list_all stormer_readable stormer_measurements \<Longrightarrow>
   KrebsViscosity_calculate_from_stormer_measurements self stormer_measurements =
     (let ns = stormer_normalized stormer_measurements in
      if ns = [] then (self, Inr (viscosityKU self))
      else (self\<lparr>viscosityKU := mean ns * 2.08 + 15.8\<rparr>, Inr (mean ns * 2.08 + 15.8)))"
  by (simp add: KrebsViscosity_calculate_from_stormer_measurements_def stormer_loop_eq
        Let_def mean_def)

lemma KrebsViscosity_raises:
  "\<not> list_all stormer_readable stormer_measurements \<Longrightarrow>
   KrebsViscosity_calculate_from_stormer_measurements self stormer_measurements =
     (self, Inl AttributeError)"
  by (auto simp: KrebsViscosity_calculate_from_stormer_measurements_def stormer_loop_raises)

lemma MFIValue_value:
  "measurements \<noteq> [] \<Longrightarrow> list_all mfi_readable measurements \<Longrightarrow>
   MFIValue_calculate_from_measurements self measurements =
     (let rs = mfi_rates measurements in
      if rs = [] then (self, Inr (mfiGramsPer10Min self))
      else (self\<lparr>mfiGramsPer10Min := mean rs\<rparr>, Inr (mean rs)))"
  by (simp add: MFIValue_calculate_from_measurements_def mfi_loop_eq Let_def mean_def)

lemma MFIValue_raises:
  "\<not> list_all mfi_readable measurements \<Longrightarrow>
   MFIValue_calculate_from_measurements self measurements = (self, Inl AttributeError)"
  by (auto simp: MFIValue_calculate_from_measurements_def mfi_loop_raises)

lemma UltimateTensileStrength_peak:
  assumes "measurements \<noteq> []" and "cross_section_area_mm2 > 0"
  shows "UltimateTensileStrength_calculate_from_measurements self measurements
           cross_section_area_mm2 =
     (let stresses = map (\<lambda>forceN. forceN / cross_section_area_mm2)
                       (positive_values ''forceN'' measurements);
          peak = (if stresses = [] then 0 else Max (set stresses))
      in (self\<lparr>utsMPa := peak\<rparr>, peak))"
proof (cases "positive_values ''forceN'' measurements = []")
  case True
  then show ?thesis using assms
    by (simp add: UltimateTensileStrength_calculate_from_measurements_def uts_loop_eq)
next
  case False
  let ?S = "(\<lambda>f. f / cross_section_area_mm2) ` set (positive_values ''forceN'' measurements)"
  have "\<forall>x\<in>?S. 0 < x"
    using assms(2) by (auto dest: positive_values_pos)
  moreover have "finite ?S" "?S \<noteq> {}" using False by auto
  ultimately have "Max (insert 0 ?S) = Max ?S" by (rule_tac Max_insert_0_pos)
  then show ?thesis using assms False
    by (simp add: UltimateTensileStrength_calculate_from_measurements_def uts_loop_eq Let_def)
qed

lemma stormer_readings_valid:
  "list_all2 stormer_reading ms grs \<Longrightarrow>
   list_all stormer_readable ms \<and>
   stormer_normalized ms = map (\<lambda>(grams, revolutions). grams * (200 / revolutions)) grs"
  by (induction ms grs rule: list_all2_induct)
     (auto simp: stormer_reading_def stormer_readable_def stormer_normalized_Cons)
















lemma keys_of_present:
  "list_all (\<lambda>m. m a \<noteq> None) ms \<Longrightarrow> keys_of a ms = Inr (map (\<lambda>m. the (m a)) ms)"
  by (induction ms) (auto simp: getattr_def split: option.splits)


lemma insort_key_decorated:
  "\<forall>p\<in>set ps. fst p = f (snd p) \<Longrightarrow>
   map snd (insort_key fst (f m, m) ps) = insort_key f m (map snd ps)"
  by (induction ps) auto

lemma sort_key_decorated:
  "map snd (sort_key fst (zip (map f ms) ms)) = sort_key f ms"
proof (induction ms)
  case Nil
  show ?case by simp
next
  case (Cons m ms)
  have "\<forall>p\<in>set (sort_key fst (zip (map f ms) ms)). fst p = f (snd p)"
    by (auto simp: set_zip)
  then show ?case using Cons by (simp add: insort_key_decorated)
qed

lemma sorted_by_present:
  "list_all (\<lambda>m. m a \<noteq> None) ms \<Longrightarrow>
   sorted_by a ms = Inr (sort_key (\<lambda>m. the (m a)) ms)"
  by (simp add: sorted_by_def keys_of_present sort_key_decorated)

lemma hd_sort_key_Min:
  fixes f :: "'a \<Rightarrow> real"
  assumes "ms \<noteq> []"
  shows "f (hd (sort_key f ms)) = Min (f ` set ms)"
proof -
  let ?s = "sort_key f ms"
  have ne: "?s \<noteq> []" using assms by (metis length_sort length_0_conv)
  have srt: "sorted (map f ?s)" by (rule sorted_sort_key)
  have "\<forall>y\<in>set (map f ?s). hd (map f ?s) \<le> y"
    using srt ne by (cases ?s) auto
  then have "\<forall>y\<in>f ` set ms. f (hd ?s) \<le> y" using ne by (simp add: hd_map)
  moreover have "f (hd ?s) \<in> f ` set ms"
    using ne by (metis hd_in_set imageI set_sort)
  ultimately show ?thesis by (intro Min_eqI [symmetric]) auto
qed

lemma sorted_le_last:
  fixes xs :: "real list"
  shows "sorted xs \<Longrightarrow> y \<in> set xs \<Longrightarrow> y \<le> last xs"
  by (induction xs) auto

lemma last_sort_key_Max:
  fixes f :: "'a \<Rightarrow> real"
  assumes "ms \<noteq> []"
  shows "f (last (sort_key f ms)) = Max (f ` set ms)"
proof -
  let ?s = "sort_key f ms"
  have ne: "?s \<noteq> []" using assms by (metis length_sort length_0_conv)
  have srt: "sorted (map f ?s)" by (rule sorted_sort_key)
  have "\<forall>y\<in>set (map f ?s). y \<le> last (map f ?s)"
    using srt by (blast intro: sorted_le_last)
  then have "\<forall>y\<in>f ` set ms. y \<le> f (last ?s)" using ne by (simp add: last_map)
  moreover have "f (last ?s) \<in> f ` set ms"
    using ne by (metis last_in_set imageI set_sort)
  ultimately show ?thesis by (intro Max_eqI [symmetric]) auto
qed

lemma CoefficientOfThermalExpansion_after_sort:
  assumes "sorted_by ''temperatureC'' measurements = Inr (f # rest)"
    and "2 \<le> length measurements" and "original_length_mm > 0"
    and "f ''temperatureC'' = Some t0" and "f ''dimensionChangeMicron'' = Some d0"
    and "last (f # rest) ''temperatureC'' = Some t1"
    and "last (f # rest) ''dimensionChangeMicron'' = Some d1"
  shows "CoefficientOfThermalExpansion_calculate_from_measurements self measurements
           original_length_mm =
     (if t1 - t0 > 0 then
        (self\<lparr>ctePpmPerC := ((d1 - d0) / (original_length_mm * 1000)) / (t1 - t0) * 1000000,
               temperatureRangeLowC := t0, temperatureRangeHighC := t1\<rparr>,
         Inr (((d1 - d0) / (original_length_mm * 1000)) / (t1 - t0) * 1000000))
      else (self, Inr (ctePpmPerC self)))"
proof -
  have ne: "measurements \<noteq> []" using assms(2) by auto
  show ?thesis
    unfolding CoefficientOfThermalExpansion_calculate_from_measurements_def assms(1)
    using ne assms(2-) by (simp add: getattr_def Let_def cte_formula_def del: last.simps)
qed

lemma CoefficientOfThermalExpansion_slope:
  assumes "2 \<le> length measurements" and "original_length_mm > 0"
    and "list_all tma_reading measurements"
  shows "CoefficientOfThermalExpansion_calculate_from_measurements self measurements
           original_length_mm =
     (let sorted_measurements = sort_key temperatureC_of measurements;
          first' = hd sorted_measurements;
          last' = last sorted_measurements;
          delta_L = dimensionChangeMicron_of last' - dimensionChangeMicron_of first';
          delta_T = temperatureC_of last' - temperatureC_of first';
          cte = (delta_L / (original_length_mm * 1000)) / delta_T * 1000000
      in if delta_T > 0 then
           (self\<lparr>ctePpmPerC := cte,
                  temperatureRangeLowC := temperatureC_of first',
                  temperatureRangeHighC := temperatureC_of last'\<rparr>, Inr cte)
         else (self, Inr (ctePpmPerC self)))"
proof -
  define S where "S = sort_key temperatureC_of measurements"
  have ne: "measurements \<noteq> []" using assms(1) by auto
  have pres: "list_all (\<lambda>m. m ''temperatureC'' \<noteq> None) measurements"
    using assms(3) by (simp add: list_all_iff tma_reading_def)
  have srt: "sorted_by ''temperatureC'' measurements = Inr S"
    using sorted_by_present [OF pres] by (simp add: S_def temperatureC_of_def [abs_def])
  have sne: "S \<noteq> []" using ne unfolding S_def by (metis length_sort length_0_conv)
  then obtain f rest where s: "S = f # rest" by (cases S) auto
  have "hd S \<in> set measurements" "last S \<in> set measurements"
    using sne unfolding S_def by (metis hd_in_set set_sort, metis last_in_set set_sort)
  then have "tma_reading (hd S)" "tma_reading (last S)"
    using assms(3) by (auto simp: list_all_iff)
  then obtain t0 d0 t1 d1 where
      a: "f ''temperatureC'' = Some t0" "f ''dimensionChangeMicron'' = Some d0"
         "last (f # rest) ''temperatureC'' = Some t1"
         "last (f # rest) ''dimensionChangeMicron'' = Some d1"
    unfolding s by (auto simp: tma_reading_def simp del: last.simps)
  have "CoefficientOfThermalExpansion_calculate_from_measurements self measurements
           original_length_mm =
     (if t1 - t0 > 0 then
        (self\<lparr>ctePpmPerC := ((d1 - d0) / (original_length_mm * 1000)) / (t1 - t0) * 1000000,
               temperatureRangeLowC := t0, temperatureRangeHighC := t1\<rparr>,
         Inr (((d1 - d0) / (original_length_mm * 1000)) / (t1 - t0) * 1000000))
      else (self, Inr (ctePpmPerC self)))"
    using srt assms(1,2) a unfolding s by (rule CoefficientOfThermalExpansion_after_sort)
  moreover have "temperatureC_of (hd S) = t0" "dimensionChangeMicron_of (hd S) = d0"
    "temperatureC_of (last S) = t1" "dimensionChangeMicron_of (last S) = d1"
    using a unfolding s by (simp_all add: temperatureC_of_def dimensionChangeMicron_of_def
        del: last.simps)
  ultimately show ?thesis
    unfolding S_def [symmetric] by (simp only: Let_def)
qed

lemmas level2_init_defs =
  HardnessScale_init_def Hardness_init_def MechanicalProperty_init_def
  PropertyCategory_init_def MaterialProperty_init_def
  KrebsViscosity_init_def Viscosity_init_def RheologicalProperty_init_def
  UltimateTensileStrength_init_def TensileStrength_init_def
  CoefficientOfThermalExpansion_init_def ThermalExpansion_init_def ThermalProperty_init_def
  MFIValue_init_def MeltFlowIndex_init_def
  ReferentialSpecificGravity_init_def SpecificGravity_init_def
  SurfaceTensionValue_init_def LiquidSurfaceTension_init_def SurfaceProperty_init_def
  CriticalSurfaceTension_init_def SolidSurfaceEnergy_init_def
  ShoreMeasurement_init_def

lemmas record_build_defs =
  MaterialProperty.extend_def PropertyCategory.extend_def PropertyCategory.fields_def
  Hardness.extend_def Hardness.fields_def HardnessScale.extend_def HardnessScale.fields_def
  ShoreMeasurement.fields_def
  Viscosity.extend_def Viscosity.fields_def KrebsViscosity.fields_def
  TensileStrength.extend_def TensileStrength.fields_def UltimateTensileStrength.fields_def
  ThermalExpansion.extend_def ThermalExpansion.fields_def
  CoefficientOfThermalExpansion.fields_def
  MeltFlowIndex.extend_def MeltFlowIndex.fields_def MFIValue.fields_def
  SpecificGravity.extend_def SpecificGravity.fields_def ReferentialSpecificGravity.fields_def
  LiquidSurfaceTension.extend_def LiquidSurfaceTension.fields_def
  SurfaceTensionValue.fields_def
  SolidSurfaceEnergy.extend_def SolidSurfaceEnergy.fields_def
  CriticalSurfaceTension.fields_def

lemma CriticalSurfaceTension_closed_form:
  "CriticalSurfaceTension_calculate_from_owens_wendt self water_angle diiodomethane_angle =
     (let d = owens_wendt_dispersive diiodomethane_angle;
          p = owens_wendt_polar water_angle d
      in (self\<lparr>dispersiveComponent := d, polarComponent := p,
                surfaceEnergyMNm := d + p, calculationMethod := ''Owens-Wendt''\<rparr>,
          (d + p, d, p)))"
  by (simp add: CriticalSurfaceTension_calculate_from_owens_wendt_def Let_def
        owens_wendt_dispersive_def owens_wendt_polar_def)

lemma owens_wendt_dispersive_zero: "owens_wendt_dispersive 0 = 50.8"
  by (simp add: owens_wendt_dispersive_def radians_def power_divide power_mult_distrib)

lemma CoefficientOfThermalExpansion_frame:
  "\<exists>v lo hi. fst (CoefficientOfThermalExpansion_calculate_from_measurements c ms len) =
      c\<lparr>ctePpmPerC := v, temperatureRangeLowC := lo, temperatureRangeHighC := hi\<rparr>"
proof -
  have keep: "c = c\<lparr>ctePpmPerC := ctePpmPerC c, temperatureRangeLowC := temperatureRangeLowC c,
                      temperatureRangeHighC := temperatureRangeHighC c\<rparr>"
    by simp
  show ?thesis
    unfolding CoefficientOfThermalExpansion_calculate_from_measurements_def Let_def
    by (auto split: sum.splits list.splits intro: keep exI)
qed

lemma HardnessScale_frame:
  "\<exists>v. fst (HardnessScale_calculate_from_measurements h ms) = h\<lparr>hardnessValue := v\<rparr>"
proof -
  have keep: "h = h\<lparr>hardnessValue := hardnessValue h\<rparr>" by simp
  show ?thesis
    unfolding HardnessScale_calculate_from_measurements_def Let_def
    by (auto split: prod.splits intro: keep exI)
qed

lemma KrebsViscosity_frame:
  "\<exists>v. fst (KrebsViscosity_calculate_from_stormer_measurements k ms) = k\<lparr>viscosityKU := v\<rparr>"
proof -
  have keep: "k = k\<lparr>viscosityKU := viscosityKU k\<rparr>" by simp
  show ?thesis
    unfolding KrebsViscosity_calculate_from_stormer_measurements_def Let_def
    by (auto split: prod.splits sum.splits intro: keep exI)
qed

lemma UltimateTensileStrength_frame:
  "\<exists>v. fst (UltimateTensileStrength_calculate_from_measurements u ms area)
          = u\<lparr>utsMPa := v\<rparr>"
proof -
  have keep: "u = u\<lparr>utsMPa := utsMPa u\<rparr>" by simp
  show ?thesis
    unfolding UltimateTensileStrength_calculate_from_measurements_def Let_def
    by (auto split: prod.splits intro: keep exI)
qed

lemma MFIValue_frame:
  "\<exists>v. fst (MFIValue_calculate_from_measurements f ms) = f\<lparr>mfiGramsPer10Min := v\<rparr>"
proof -
  have keep: "f = f\<lparr>mfiGramsPer10Min := mfiGramsPer10Min f\<rparr>" by simp
  show ?thesis
    unfolding MFIValue_calculate_from_measurements_def Let_def
    by (auto split: prod.splits sum.splits intro: keep exI)
qed

lemma ReferentialSpecificGravity_frame:
  "\<exists>v. fst (ReferentialSpecificGravity_calculate_from_measurements g ms)
          = g\<lparr>specificGravityValue := v\<rparr>"
proof -
  have keep: "g = g\<lparr>specificGravityValue := specificGravityValue g\<rparr>" by simp
  show ?thesis
    unfolding ReferentialSpecificGravity_calculate_from_measurements_def Let_def
    by (auto split: prod.splits intro: keep exI)
qed

lemma SurfaceTensionValue_frame:
  "\<exists>v. fst (SurfaceTensionValue_calculate_from_measurements s ms)
          = s\<lparr>surfaceTensionMNm := v\<rparr>"
proof -
  have keep: "s = s\<lparr>surfaceTensionMNm := surfaceTensionMNm s\<rparr>" by simp
  show ?thesis
    unfolding SurfaceTensionValue_calculate_from_measurements_def Let_def
    by (auto split: prod.splits intro: keep exI)
qed

lemma derivation_keeps_abstractionLevel:
  "Hardness.abstractionLevel (fst (HardnessScale_calculate_from_measurements h ms))
     = Hardness.abstractionLevel h"
  "Viscosity.abstractionLevel (fst (KrebsViscosity_calculate_from_stormer_measurements k ms))
     = Viscosity.abstractionLevel k"
  "TensileStrength.abstractionLevel
     (fst (UltimateTensileStrength_calculate_from_measurements u ms area))
     = TensileStrength.abstractionLevel u"
  "ThermalExpansion.abstractionLevel
     (fst (CoefficientOfThermalExpansion_calculate_from_measurements e ms len))
     = ThermalExpansion.abstractionLevel e"
  "MeltFlowIndex.abstractionLevel (fst (MFIValue_calculate_from_measurements f ms))
     = MeltFlowIndex.abstractionLevel f"
  "SpecificGravity.abstractionLevel
     (fst (ReferentialSpecificGravity_calculate_from_measurements g ms))
     = SpecificGravity.abstractionLevel g"
  "LiquidSurfaceTension.abstractionLevel
     (fst (SurfaceTensionValue_calculate_from_measurements s ms))
     = LiquidSurfaceTension.abstractionLevel s"
  "SolidSurfaceEnergy.abstractionLevel
     (fst (CriticalSurfaceTension_calculate_from_owens_wendt t water_angle
             diiodomethane_angle))
     = SolidSurfaceEnergy.abstractionLevel t"
proof -
  show "Hardness.abstractionLevel (fst (HardnessScale_calculate_from_measurements h ms))
     = Hardness.abstractionLevel h"
    using HardnessScale_frame [of h ms] by auto
  show "Viscosity.abstractionLevel (fst (KrebsViscosity_calculate_from_stormer_measurements k ms))
     = Viscosity.abstractionLevel k"
    using KrebsViscosity_frame [of k ms] by auto
  show "TensileStrength.abstractionLevel
     (fst (UltimateTensileStrength_calculate_from_measurements u ms area))
     = TensileStrength.abstractionLevel u"
    using UltimateTensileStrength_frame [of u ms area] by auto
  show "ThermalExpansion.abstractionLevel
     (fst (CoefficientOfThermalExpansion_calculate_from_measurements e ms len))
     = ThermalExpansion.abstractionLevel e"
    using CoefficientOfThermalExpansion_frame [of e ms len] by auto
  show "MeltFlowIndex.abstractionLevel (fst (MFIValue_calculate_from_measurements f ms))
     = MeltFlowIndex.abstractionLevel f"
    using MFIValue_frame [of f ms] by auto
  show "SpecificGravity.abstractionLevel
     (fst (ReferentialSpecificGravity_calculate_from_measurements g ms))
     = SpecificGravity.abstractionLevel g"
    using ReferentialSpecificGravity_frame [of g ms] by auto
  show "LiquidSurfaceTension.abstractionLevel
     (fst (SurfaceTensionValue_calculate_from_measurements s ms))
     = LiquidSurfaceTension.abstractionLevel s"
    using SurfaceTensionValue_frame [of s ms] by auto
  show "SolidSurfaceEnergy.abstractionLevel
     (fst (CriticalSurfaceTension_calculate_from_owens_wendt t water_angle
             diiodomethane_angle))
     = SolidSurfaceEnergy.abstractionLevel t"
    by (simp add: CriticalSurfaceTension_closed_form Let_def)
qed

lemma not_positive_values:
  "list_all (not_positive a) ms \<Longrightarrow> positive_values a ms = []"
  by (induction ms) (auto simp: positive_values_Cons not_positive_def split: option.splits)

lemma not_counted_stormer:
  "list_all (\<lambda>m. \<not> stormer_counted m) ms \<Longrightarrow> stormer_normalized ms = []"
  by (induction ms)
     (auto simp: stormer_normalized_Cons stormer_counted_def split: option.splits)

lemma not_counted_mfi:
  "list_all (\<lambda>m. \<not> mfi_counted m) ms \<Longrightarrow> mfi_rates ms = []"
  by (induction ms) (auto simp: mfi_rates_Cons mfi_counted_def split: option.splits)

lemma HardnessScale_no_valid:
  "list_all (not_positive ''hardnessReading'') ms \<Longrightarrow>
   HardnessScale_calculate_from_measurements h ms = (h, hardnessValue h)"
  by (cases "ms = []")
     (simp_all add: HardnessScale_mean not_positive_values,
      simp add: HardnessScale_calculate_from_measurements_def)

lemma ReferentialSpecificGravity_no_valid:
  "list_all (not_positive ''specificGravityValue'') ms \<Longrightarrow>
   ReferentialSpecificGravity_calculate_from_measurements g ms = (g, specificGravityValue g)"
  by (cases "ms = []")
     (simp_all add: ReferentialSpecificGravity_mean not_positive_values,
      simp add: ReferentialSpecificGravity_calculate_from_measurements_def)

lemma KrebsViscosity_no_valid:
  assumes "list_all (\<lambda>m. \<not> stormer_counted m) ms"
  shows "KrebsViscosity_calculate_from_stormer_measurements k ms =
     (k, if list_all stormer_readable ms then Inr (viscosityKU k) else Inl AttributeError)"
proof (cases "list_all stormer_readable ms")
  case False
  then show ?thesis by (simp add: KrebsViscosity_raises)
next
  case True
  show ?thesis
  proof (cases "ms = []")
    case True
    then show ?thesis by (simp add: KrebsViscosity_calculate_from_stormer_measurements_def)
  next
    case False
    then show ?thesis
      using True assms by (simp add: KrebsViscosity_value not_counted_stormer)
  qed
qed

lemma MFIValue_no_valid:
  assumes "list_all (\<lambda>m. \<not> mfi_counted m) ms"
  shows "MFIValue_calculate_from_measurements f ms =
     (f, if list_all mfi_readable ms then Inr (mfiGramsPer10Min f) else Inl AttributeError)"
proof (cases "list_all mfi_readable ms")
  case False
  then show ?thesis by (simp add: MFIValue_raises)
next
  case True
  show ?thesis
  proof (cases "ms = []")
    case True
    then show ?thesis by (simp add: MFIValue_calculate_from_measurements_def)
  next
    case False
    then show ?thesis
      using True assms by (simp add: MFIValue_value not_counted_mfi)
  qed
qed

lemma UltimateTensileStrength_no_valid:
  assumes "ms \<noteq> []" and "area > 0" and "list_all (not_positive ''forceN'') ms"
  shows "UltimateTensileStrength_calculate_from_measurements u ms area = (u\<lparr>utsMPa := 0\<rparr>, 0)"
  using assms by (simp add: UltimateTensileStrength_peak not_positive_values)

lemma CriticalSurfaceTension_frame:
  "\<exists>d p e. fst (CriticalSurfaceTension_calculate_from_owens_wendt t water_angle
                    diiodomethane_angle) =
      t\<lparr>dispersiveComponent := d, polarComponent := p, surfaceEnergyMNm := e,
        calculationMethod := ''Owens-Wendt''\<rparr>"
  by (simp add: CriticalSurfaceTension_closed_form Let_def) blast

lemma SpecificGravity_init_level:
  "SpecificGravity.abstractionLevel
     (SpecificGravity_init self_cls name' description' materialId')
     = ABSTRACTION_LEVEL self_cls"
  by (simp add: SpecificGravity_init_def MaterialProperty.extend_def SpecificGravity.fields_def)

lemma DensityMeterMeasurement_init_level:
  "SpecificGravity.abstractionLevel
     (DensityMeterMeasurement_init self_cls materialId' referentialSpecificGravityId'
       sequenceNumber' densityValue' specificGravityValue' oscillationFrequency' temperature'
       referenceDensity' measurementDate' operator' equipment' calibrationDate' notes')
     = ABSTRACTION_LEVEL self_cls"
  by (simp add: DensityMeterMeasurement_init_def Let_def)

lemma HydrometerMeasurement_init_level:
  "SpecificGravity.abstractionLevel
     (HydrometerMeasurement_init self_cls materialId' referentialSpecificGravityId'
       sequenceNumber' scaleReading' specificGravityValue' scaleType' temperature'
       calibrationTemperature' measurementDate' operator' equipment' notes')
     = ABSTRACTION_LEVEL self_cls"
  by (simp add: HydrometerMeasurement_init_def Let_def)

lemma PycnometerMeasurement_init_level:
  "SpecificGravity.abstractionLevel
     (PycnometerMeasurement_init self_cls materialId' referentialSpecificGravityId'
       sequenceNumber' emptyWeight' referenceWeight' sampleWeight' specificGravityValue'
       temperature' pycnometerVolume' measurementDate' operator' equipment' notes')
     = ABSTRACTION_LEVEL self_cls"
  by (simp add: PycnometerMeasurement_init_def Let_def)

lemma ReferentialSpecificGravity_init_level:
  "SpecificGravity.abstractionLevel
     (ReferentialSpecificGravity_init self_cls materialId' specificGravityValue'
       referenceMaterial' referenceTemperature' sampleTemperature' measurementDate' notes')
     = ABSTRACTION_LEVEL self_cls"
  by (simp add: ReferentialSpecificGravity_init_def Let_def)

lemma Hardness_init_level:
  "Hardness.abstractionLevel
     (Hardness_init self_cls name' description' materialId')
     = ABSTRACTION_LEVEL self_cls"
  by (simp add: Hardness_init_def PropertyCategory.extend_def Hardness.fields_def)

lemma TensileStrength_init_level:
  "TensileStrength.abstractionLevel
     (TensileStrength_init self_cls name' description' materialId')
     = ABSTRACTION_LEVEL self_cls"
  by (simp add: TensileStrength_init_def PropertyCategory.extend_def TensileStrength.fields_def)

lemma Elasticity_init_level:
  "Elasticity.abstractionLevel
     (Elasticity_init self_cls name' description' materialId')
     = ABSTRACTION_LEVEL self_cls"
  by (simp add: Elasticity_init_def PropertyCategory.extend_def Elasticity.fields_def)

lemma MeltFlowIndex_init_level:
  "MeltFlowIndex.abstractionLevel
     (MeltFlowIndex_init self_cls name' description' materialId')
     = ABSTRACTION_LEVEL self_cls"
  by (simp add: MeltFlowIndex_init_def PropertyCategory.extend_def MeltFlowIndex.fields_def)

lemma Viscosity_init_level:
  "Viscosity.abstractionLevel
     (Viscosity_init self_cls name' description' materialId')
     = ABSTRACTION_LEVEL self_cls"
  by (simp add: Viscosity_init_def PropertyCategory.extend_def Viscosity.fields_def)

lemma LiquidSurfaceTension_init_level:
  "LiquidSurfaceTension.abstractionLevel
     (LiquidSurfaceTension_init self_cls name' description' materialId')
     = ABSTRACTION_LEVEL self_cls"
  by (simp add: LiquidSurfaceTension_init_def PropertyCategory.extend_def LiquidSurfaceTension.fields_def)

lemma SolidSurfaceEnergy_init_level:
  "SolidSurfaceEnergy.abstractionLevel
     (SolidSurfaceEnergy_init self_cls name' description' materialId')
     = ABSTRACTION_LEVEL self_cls"
  by (simp add: SolidSurfaceEnergy_init_def PropertyCategory.extend_def SolidSurfaceEnergy.fields_def)

lemma GlassTransition_init_level:
  "GlassTransition.abstractionLevel
     (GlassTransition_init self_cls name' description' materialId')
     = ABSTRACTION_LEVEL self_cls"
  by (simp add: GlassTransition_init_def PropertyCategory.extend_def GlassTransition.fields_def)

lemma MeltingPoint_init_level:
  "MeltingPoint.abstractionLevel
     (MeltingPoint_init self_cls name' description' materialId')
     = ABSTRACTION_LEVEL self_cls"
  by (simp add: MeltingPoint_init_def PropertyCategory.extend_def MeltingPoint.fields_def)

lemma SmokingPoint_init_level:
  "SmokingPoint.abstractionLevel
     (SmokingPoint_init self_cls name' description' materialId')
     = ABSTRACTION_LEVEL self_cls"
  by (simp add: SmokingPoint_init_def PropertyCategory.extend_def SmokingPoint.fields_def)

lemma ThermalExpansion_init_level:
  "ThermalExpansion.abstractionLevel
     (ThermalExpansion_init self_cls name' description' materialId')
     = ABSTRACTION_LEVEL self_cls"
  by (simp add: ThermalExpansion_init_def PropertyCategory.extend_def ThermalExpansion.fields_def)

lemma HardnessScale_init_level:
  "Hardness.abstractionLevel
     (HardnessScale_init self_cls materialId' hardnessValue' scale' temperature'
       measurementDate' notes')
     = ABSTRACTION_LEVEL self_cls"
  by (simp add: HardnessScale_init_def Let_def)

lemma UltimateTensileStrength_init_level:
  "TensileStrength.abstractionLevel
     (UltimateTensileStrength_init self_cls materialId' utsMPa' yieldStrengthMPa'
       elongationAtBreak' youngsModulusMPa' specimenType' testSpeed' temperature'
       measurementDate' notes')
     = ABSTRACTION_LEVEL self_cls"
  by (simp add: UltimateTensileStrength_init_def Let_def)

lemma StorageModulus_init_level:
  "Elasticity.abstractionLevel
     (StorageModulus_init self_cls materialId' storageModulusPa' lossModulusPa' lossFactor'
       frequency' temperature' measurementDate' notes')
     = ABSTRACTION_LEVEL self_cls"
  by (simp add: StorageModulus_init_def Let_def)

lemma MFIValue_init_level:
  "MeltFlowIndex.abstractionLevel
     (MFIValue_init self_cls materialId' mfiGramsPer10Min' testTemperature' testLoad'
       polymerType' measurementDate' notes')
     = ABSTRACTION_LEVEL self_cls"
  by (simp add: MFIValue_init_def Let_def)

lemma KrebsViscosity_init_level:
  "Viscosity.abstractionLevel
     (KrebsViscosity_init self_cls materialId' viscosityKU' temperature' measurementDate'
       notes')
     = ABSTRACTION_LEVEL self_cls"
  by (simp add: KrebsViscosity_init_def Let_def)

lemma StormerViscosity_init_level:
  "Viscosity.abstractionLevel
     (StormerViscosity_init self_cls materialId' krebsViscosityId' sequenceNumber' time'
       revolutions' grams' temperature' measurementDate' operator' equipment' notes')
     = ABSTRACTION_LEVEL self_cls"
  by (simp add: StormerViscosity_init_def Let_def)

lemma SurfaceTensionValue_init_level:
  "LiquidSurfaceTension.abstractionLevel
     (SurfaceTensionValue_init self_cls materialId' surfaceTensionMNm' interfacialTensionMNm'
       secondPhase' measurementMethod' temperature' measurementDate' notes')
     = ABSTRACTION_LEVEL self_cls"
  by (simp add: SurfaceTensionValue_init_def Let_def)

lemma CriticalSurfaceTension_init_level:
  "SolidSurfaceEnergy.abstractionLevel
     (CriticalSurfaceTension_init self_cls materialId' surfaceEnergyMNm' dispersiveComponent'
       polarComponent' calculationMethod' temperature' measurementDate' notes')
     = ABSTRACTION_LEVEL self_cls"
  by (simp add: CriticalSurfaceTension_init_def Let_def)

lemma GlassTransitionTemp_init_level:
  "GlassTransition.abstractionLevel
     (GlassTransitionTemp_init self_cls materialId' tgCelsius' tgOnset' tgMidpoint' tgEndset'
       deltaCp' measurementMethod' heatingRate' frequency' measurementDate' notes')
     = ABSTRACTION_LEVEL self_cls"
  by (simp add: GlassTransitionTemp_init_def Let_def)

lemma MeltingPointValue_init_level:
  "MeltingPoint.abstractionLevel
     (MeltingPointValue_init self_cls materialId' meltingPointC' meltingPointOnsetC'
       meltingPointPeakC' heatOfFusionJg' crystallinityPercent' measurementMethod' heatingRate'
       measurementDate' notes')
     = ABSTRACTION_LEVEL self_cls"
  by (simp add: MeltingPointValue_init_def Let_def)

lemma SmokingPointValue_init_level:
  "SmokingPoint.abstractionLevel
     (SmokingPointValue_init self_cls materialId' smokingPointC' flashPointC' firePointC'
       measurementMethod' heatingRate' measurementDate' notes')
     = ABSTRACTION_LEVEL self_cls"
  by (simp add: SmokingPointValue_init_def Let_def)

lemma CoefficientOfThermalExpansion_init_level:
  "ThermalExpansion.abstractionLevel
     (CoefficientOfThermalExpansion_init self_cls materialId' ctePpmPerC' temperatureRangeLowC'
       temperatureRangeHighC' expansionType' direction' measurementMethod' heatingRate'
       measurementDate' notes')
     = ABSTRACTION_LEVEL self_cls"
  by (simp add: CoefficientOfThermalExpansion_init_def Let_def)

lemma ShoreMeasurement_init_level:
  "Hardness.abstractionLevel
     (ShoreMeasurement_init self_cls materialId' hardnessScaleId' sequenceNumber'
       hardnessReading' shoreType' readingTime' sampleThickness' locationOnSample' temperature'
       measurementDate' operator' equipment' notes' openSourceImplementationExists')
     = ABSTRACTION_LEVEL self_cls"
  by (simp add: ShoreMeasurement_init_def Let_def)

lemma TensileMeasurement_init_level:
  "TensileStrength.abstractionLevel
     (TensileMeasurement_init self_cls materialId' utsId' sequenceNumber' forceN'
       displacementMm' time' gaugeLength' specimenWidth' specimenThickness' extensometerStrain'
       testSpeed' temperature' measurementDate' operator' equipment' notes'
       openSourceImplementationExists')
     = ABSTRACTION_LEVEL self_cls"
  by (simp add: TensileMeasurement_init_def Let_def)

lemma DMAMeasurement_init_level:
  "Elasticity.abstractionLevel
     (DMAMeasurement_init self_cls materialId' storageModulusId' sequenceNumber' strain'
       stress' phaseAngle' storageModulusPa' lossModulusPa' frequency' sampleLength'
       sampleWidth' sampleThickness' clampType' temperature' measurementDate' operator'
       equipment' notes' openSourceImplementationExists')
     = ABSTRACTION_LEVEL self_cls"
  by (simp add: DMAMeasurement_init_def Let_def)

lemma RheometerMeasurement_init_level:
  "Elasticity.abstractionLevel
     (RheometerMeasurement_init self_cls materialId' storageModulusId' sequenceNumber'
       geometry' gapDistance' strain' shearRate' torque' normalForce' storageModulusPa'
       lossModulusPa' frequency' temperature' measurementDate' operator' equipment' notes'
       openSourceImplementationExists')
     = ABSTRACTION_LEVEL self_cls"
  by (simp add: RheometerMeasurement_init_def Let_def)

lemma MFIMeasurement_init_level:
  "MeltFlowIndex.abstractionLevel
     (MFIMeasurement_init self_cls materialId' mfiValueId' sequenceNumber' extrusionTime'
       extrudateMass' preheatTime' barrelTemperature' testLoad' dieDiameter' dieLength'
       measurementDate' operator' equipment' notes' openSourceImplementationExists')
     = ABSTRACTION_LEVEL self_cls"
  by (simp add: MFIMeasurement_init_def Let_def)

lemma WilhelmyMeasurement_init_level:
  "LiquidSurfaceTension.abstractionLevel
     (WilhelmyMeasurement_init self_cls materialId' surfaceTensionValueId' sequenceNumber'
       forceMN' platePerimeterMm' plateMaterial' contactAngle' immersionDepthMm' temperature'
       measurementDate' operator' equipment' notes' openSourceImplementationExists')
     = ABSTRACTION_LEVEL self_cls"
  by (simp add: WilhelmyMeasurement_init_def WilhelmyMeasurement_calculate_surface_tension_def Let_def)

lemma ContactAngleMeasurement_init_level:
  "SolidSurfaceEnergy.abstractionLevel
     (ContactAngleMeasurement_init self_cls materialId' surfaceEnergyId' sequenceNumber'
       contactAngle' probeLiquid' probeLiquidSurfaceTension' dropVolume' measurementType'
       leftAngle' rightAngle' humidity' temperature' measurementDate' operator' equipment'
       software' notes' openSourceImplementationExists')
     = ABSTRACTION_LEVEL self_cls"
  by (simp add: ContactAngleMeasurement_init_def Let_def)

lemma DMAGlassTransitionMeasurement_init_level:
  "GlassTransition.abstractionLevel
     (DMAGlassTransitionMeasurement_init self_cls materialId' glassTransitionTempId'
       sequenceNumber' temperatureC' storageModulusPa' lossModulusPa' tanDelta' frequency'
       strain' clampType' sampleLength' sampleWidth' sampleThickness' heatingRate'
       measurementDate' operator' equipment' notes' openSourceImplementationExists')
     = ABSTRACTION_LEVEL self_cls"
  by (simp add: DMAGlassTransitionMeasurement_init_def Let_def)

lemma DSCMeltingMeasurement_init_level:
  "MeltingPoint.abstractionLevel
     (DSCMeltingMeasurement_init self_cls materialId' meltingPointValueId' sequenceNumber'
       temperatureC' heatFlowMW' time' sampleMassMg' panType' atmosphere' flowRateMlMin'
       heatingRate' measurementDate' operator' equipment' notes'
       openSourceImplementationExists')
     = ABSTRACTION_LEVEL self_cls"
  by (simp add: DSCMeltingMeasurement_init_def Let_def)

lemma SmokingPointMeasurement_init_level:
  "SmokingPoint.abstractionLevel
     (SmokingPointMeasurement_init self_cls materialId' smokingPointValueId' sequenceNumber'
       observedTemperatureC' cupType' sampleVolumeMl' heatingRate' ambientTemperature'
       humidity' detectionMethod' measurementDate' operator' equipment' notes'
       openSourceImplementationExists')
     = ABSTRACTION_LEVEL self_cls"
  by (simp add: SmokingPointMeasurement_init_def Let_def)

lemma TMAMeasurement_init_level:
  "ThermalExpansion.abstractionLevel
     (TMAMeasurement_init self_cls materialId' cteId' sequenceNumber' temperatureC'
       dimensionChangeMicron' time' originalLengthMm' probeForceN' probeType' atmosphere'
       heatingRate' measurementDate' operator' equipment' notes'
       openSourceImplementationExists')
     = ABSTRACTION_LEVEL self_cls"
  by (simp add: TMAMeasurement_init_def Let_def)

lemma TensileMeasurement_calculate_engineering_stress_level:
  "TensileStrength.abstractionLevel (fst (TensileMeasurement_calculate_engineering_stress self))
     = TensileStrength.abstractionLevel self"
  by (simp add: TensileMeasurement_calculate_engineering_stress_def Let_def)

lemma TensileMeasurement_calculate_engineering_strain_level:
  "TensileStrength.abstractionLevel (fst (TensileMeasurement_calculate_engineering_strain self))
     = TensileStrength.abstractionLevel self"
  by (simp add: TensileMeasurement_calculate_engineering_strain_def Let_def)

lemma PycnometerMeasurement_calculate_specific_gravity_level:
  "SpecificGravity.abstractionLevel (fst (PycnometerMeasurement_calculate_specific_gravity self))
     = SpecificGravity.abstractionLevel self"
  by (simp add: PycnometerMeasurement_calculate_specific_gravity_def Let_def)

lemma HydrometerMeasurement_convert_to_specific_gravity_level:
  "SpecificGravity.abstractionLevel (fst (HydrometerMeasurement_convert_to_specific_gravity self))
     = SpecificGravity.abstractionLevel self"
  by (simp add: HydrometerMeasurement_convert_to_specific_gravity_def Let_def)

lemma DensityMeterMeasurement_calculate_specific_gravity_level:
  "SpecificGravity.abstractionLevel (fst (DensityMeterMeasurement_calculate_specific_gravity self))
     = SpecificGravity.abstractionLevel self"
  by (simp add: DensityMeterMeasurement_calculate_specific_gravity_def Let_def)

lemma StorageModulus_calculate_complex_modulus_level:
  "Elasticity.abstractionLevel (fst (StorageModulus_calculate_complex_modulus self))
     = Elasticity.abstractionLevel self"
  by (simp add: StorageModulus_calculate_complex_modulus_def Let_def)

lemma StorageModulus_calculate_loss_factor_level:
  "Elasticity.abstractionLevel (fst (StorageModulus_calculate_loss_factor self))
     = Elasticity.abstractionLevel self"
  by (simp add: StorageModulus_calculate_loss_factor_def Let_def)

lemma DMAGlassTransitionMeasurement_calculate_tan_delta_level:
  "GlassTransition.abstractionLevel (fst (DMAGlassTransitionMeasurement_calculate_tan_delta self))
     = GlassTransition.abstractionLevel self"
  by (simp add: DMAGlassTransitionMeasurement_calculate_tan_delta_def Let_def)

lemma TMAMeasurement_calculate_strain_percent_level:
  "ThermalExpansion.abstractionLevel (fst (TMAMeasurement_calculate_strain_percent self))
     = ThermalExpansion.abstractionLevel self"
  by (simp add: TMAMeasurement_calculate_strain_percent_def Let_def)

lemma DSCMeltingMeasurement_normalize_heat_flow_level:
  "MeltingPoint.abstractionLevel (fst (DSCMeltingMeasurement_normalize_heat_flow self))
     = MeltingPoint.abstractionLevel self"
  by (simp add: DSCMeltingMeasurement_normalize_heat_flow_def Let_def)

lemma MeltingPointValue_calculate_crystallinity_level:
  "MeltingPoint.abstractionLevel (fst (MeltingPointValue_calculate_crystallinity self reference_heat_of_fusion))
     = MeltingPoint.abstractionLevel self"
  by (simp add: MeltingPointValue_calculate_crystallinity_def Let_def)

lemma ContactAngleMeasurement_calculate_average_angle_level:
  "SolidSurfaceEnergy.abstractionLevel (fst (ContactAngleMeasurement_calculate_average_angle self))
     = SolidSurfaceEnergy.abstractionLevel self"
  by (simp add: ContactAngleMeasurement_calculate_average_angle_def Let_def)

lemma WilhelmyMeasurement_calculate_surface_tension_level:
  "LiquidSurfaceTension.abstractionLevel (WilhelmyMeasurement_calculate_surface_tension self)
     = LiquidSurfaceTension.abstractionLevel self"
  by (simp add: WilhelmyMeasurement_calculate_surface_tension_def Let_def)
















section \<open>The claims\<close>

text \<open>
  Claim C1.  Each of the six derivation methods (hardness, Krebs viscosity,
  ultimate tensile strength, coefficient of thermal expansion, melt flow index,
  specific gravity), called with an empty list of measurements, returns the
  value stored in the object's derived-value field and leaves the object as it
  was, whatever the other argument of the method is.
\<close>

theorem empty_input_is_noop:
  "HardnessScale_calculate_from_measurements h [] = (h, hardnessValue h) \<and>
   KrebsViscosity_calculate_from_stormer_measurements k [] = (k, Inr (viscosityKU k)) \<and>
   UltimateTensileStrength_calculate_from_measurements u [] cross_section_area_mm2
     = (u, utsMPa u) \<and>
   CoefficientOfThermalExpansion_calculate_from_measurements c [] original_length_mm
     = (c, Inr (ctePpmPerC c)) \<and>
   MFIValue_calculate_from_measurements f [] = (f, Inr (mfiGramsPer10Min f)) \<and>
   ReferentialSpecificGravity_calculate_from_measurements g [] = (g, specificGravityValue g)"
  by (simp add: HardnessScale_calculate_from_measurements_def
        KrebsViscosity_calculate_from_stormer_measurements_def
        UltimateTensileStrength_calculate_from_measurements_def
        CoefficientOfThermalExpansion_calculate_from_measurements_def
        MFIValue_calculate_from_measurements_def
        ReferentialSpecificGravity_calculate_from_measurements_def)




text \<open>
  Claim C3.  For a non-empty list of Stormer readings that all have positive
  \<open>grams\<close> and positive \<open>revolutions\<close>, the Krebs derivation normalizes each
  reading as \<open>grams * (200 / revolutions)\<close>, averages the normalized values, and
  stores and returns \<open>KU = average * 2.08 + 15.8\<close>.  The witness is the example
  of the specification: the readings (100 g, 100 rev) and (50 g, 200 rev)
  normalize to 200 and 50, average 125, and give 275.8 KU.
\<close>

theorem krebs_normalize_then_mean:
  assumes "stormer_measurements \<noteq> []"
    and "list_all2 stormer_reading stormer_measurements readings"
  shows "KrebsViscosity_calculate_from_stormer_measurements self stormer_measurements =
     (let normalized = map (\<lambda>(grams, revolutions). grams * (200 / revolutions)) readings;
          average = sum_list normalized / real (length normalized);
          KU = average * 2.08 + 15.8
      in (self\<lparr>viscosityKU := KU\<rparr>, Inr KU))"
proof -
  from assms(2) have r: "list_all stormer_readable stormer_measurements"
    and n: "stormer_normalized stormer_measurements =
              map (\<lambda>(grams, revolutions). grams * (200 / revolutions)) readings"
    by (simp_all add: stormer_readings_valid)
  from assms have "readings \<noteq> []" by (auto dest: list_all2_lengthD)
  then show ?thesis
    using KrebsViscosity_value [OF assms(1) r, of self] by (simp add: n Let_def mean_def)
qed

theorem krebs_normalize_then_mean_witness:
  "[[''grams'' \<mapsto> 100, ''revolutions'' \<mapsto> 100], [''grams'' \<mapsto> 50, ''revolutions'' \<mapsto> 200]] \<noteq> [] \<and>
   list_all2 stormer_reading
     [[''grams'' \<mapsto> 100, ''revolutions'' \<mapsto> 100], [''grams'' \<mapsto> 50, ''revolutions'' \<mapsto> 200]]
     [(100, 100), (50, 200)] \<and>
   map (\<lambda>(grams, revolutions). grams * (200 / revolutions)) [(100, 100), (50, 200)]
     = [200, 50 :: real] \<and>
   sum_list [200, 50 :: real] / real (length [200, 50 :: real]) = 125 \<and>
   KrebsViscosity_calculate_from_stormer_measurements KrebsViscosity_default
     [[''grams'' \<mapsto> 100, ''revolutions'' \<mapsto> 100], [''grams'' \<mapsto> 50, ''revolutions'' \<mapsto> 200]]
     = (KrebsViscosity_default\<lparr>viscosityKU := 275.8\<rparr>, Inr 275.8)"
  using krebs_normalize_then_mean
    [of "[[''grams'' \<mapsto> 100, ''revolutions'' \<mapsto> 100], [''grams'' \<mapsto> 50, ''revolutions'' \<mapsto> 200]]"
        "[(100, 100), (50, 200)]" KrebsViscosity_default]
  by (simp add: stormer_reading_def Let_def)

text \<open>
  Claim C4.  For a non-empty list of readings and a positive cross-section area,
  the tensile derivation stores and returns the peak stress: the maximum of
  \<open>forceN / cross_section_area_mm2\<close> over the readings that have a positive
  \<open>forceN\<close> (0 when there is none).  The witness is the example of the
  specification: forces 100, 250 and 180 N over 10 square millimetres give 25 MPa.
\<close>

theorem uts_is_peak_stress:
  assumes "measurements \<noteq> []" and "cross_section_area_mm2 > 0"
  shows "UltimateTensileStrength_calculate_from_measurements self measurements
           cross_section_area_mm2 =
     (let stresses = map (\<lambda>forceN. forceN / cross_section_area_mm2)
                       (positive_values ''forceN'' measurements);
          peak = (if stresses = [] then 0 else Max (set stresses))
      in (self\<lparr>utsMPa := peak\<rparr>, peak))"
  using assms by (rule UltimateTensileStrength_peak)

theorem uts_is_peak_stress_witness:
  "[[''forceN'' \<mapsto> 100], [''forceN'' \<mapsto> 250], [''forceN'' \<mapsto> 180]] \<noteq> ([] :: measurement list) \<and>
   (10 :: real) > 0 \<and>
   UltimateTensileStrength_calculate_from_measurements UltimateTensileStrength_default
     [[''forceN'' \<mapsto> 100], [''forceN'' \<mapsto> 250], [''forceN'' \<mapsto> 180]] 10
     = (UltimateTensileStrength_default\<lparr>utsMPa := 25\<rparr>, 25)"
  using uts_is_peak_stress
    [of "[[''forceN'' \<mapsto> 100], [''forceN'' \<mapsto> 250], [''forceN'' \<mapsto> 180]]" 10
        UltimateTensileStrength_default]
  by (simp add: positive_values_Cons Let_def)

text \<open>
  Claim C5, as stated, fails: with two readings at the same temperature
  \<open>delta_T\<close> is 0, the guard \<open>if delta_T > 0\<close> skips the assignment and the stored
  value (here 7) is returned; the quotient of the claim does not exist there
  (in HOL it is 0).
\<close>

theorem cte_noop_at_equal_temperatures:
  "CoefficientOfThermalExpansion_calculate_from_measurements
     CoefficientOfThermalExpansion_stored7
     [[''temperatureC'' \<mapsto> 25, ''dimensionChangeMicron'' \<mapsto> 0],
      [''temperatureC'' \<mapsto> 25, ''dimensionChangeMicron'' \<mapsto> 50]] 10
     = (CoefficientOfThermalExpansion_stored7, Inr 7) \<and>
   CoefficientOfThermalExpansion_calculate_from_measurements
     CoefficientOfThermalExpansion_stored7
     [[''temperatureC'' \<mapsto> 25, ''dimensionChangeMicron'' \<mapsto> 0],
      [''temperatureC'' \<mapsto> 25, ''dimensionChangeMicron'' \<mapsto> 50]] 10
     \<noteq> (CoefficientOfThermalExpansion_stored7
          \<lparr>ctePpmPerC := ((50 - 0) / (10 * 1000)) / (25 - 25) * 1000000\<rparr>,
        Inr (((50 - 0) / (10 * 1000)) / (25 - 25) * 1000000))"
  by (simp add: CoefficientOfThermalExpansion_calculate_from_measurements_def sorted_by_def
        getattr_def CoefficientOfThermalExpansion_stored7_def level2_init_defs
        record_build_defs)

text \<open>
  Claim C5, amended.  For at least two readings, each with \<open>temperatureC\<close> and
  \<open>dimensionChangeMicron\<close>, and a positive original length, the derivation sorts
  the readings by \<open>temperatureC\<close> and takes the first (lowest temperature) and the
  last (highest temperature).  When the temperatures differ it stores and
  returns \<open>CTE = (delta_L / (original_length_mm * 1000)) / delta_T * 1e6\<close> and sets
  the temperature range to the two endpoint temperatures; when they are equal
  it is a no-op returning the stored value.  With fewer than two readings it is
  a no-op returning the stored value.  The witness is the example of the
  specification: (25 C, 0 micron) and (125 C, 50 micron) on a 10 mm sample give
  50 ppm/C.
\<close>

theorem cte_two_endpoint_slope:
  assumes "2 \<le> length measurements" and "original_length_mm > 0"
    and "list_all tma_reading measurements"
  shows "CoefficientOfThermalExpansion_calculate_from_measurements self measurements
           original_length_mm =
     (let sorted_measurements = sort_key temperatureC_of measurements;
          first' = hd sorted_measurements;
          last' = last sorted_measurements;
          delta_L = dimensionChangeMicron_of last' - dimensionChangeMicron_of first';
          delta_T = temperatureC_of last' - temperatureC_of first';
          cte = (delta_L / (original_length_mm * 1000)) / delta_T * 1000000
      in if delta_T > 0 then
           (self\<lparr>ctePpmPerC := cte,
                  temperatureRangeLowC := temperatureC_of first',
                  temperatureRangeHighC := temperatureC_of last'\<rparr>, Inr cte)
         else (self, Inr (ctePpmPerC self))) \<and>
     temperatureC_of (hd (sort_key temperatureC_of measurements))
       = Min (temperatureC_of ` set measurements) \<and>
     temperatureC_of (last (sort_key temperatureC_of measurements))
       = Max (temperatureC_of ` set measurements) \<and>
     (length few < 2 \<longrightarrow>
        CoefficientOfThermalExpansion_calculate_from_measurements self few length_mm
          = (self, Inr (ctePpmPerC self)))"
proof -
  have ne: "measurements \<noteq> []" using assms(1) by auto
  have few: "length few < 2 \<longrightarrow>
        CoefficientOfThermalExpansion_calculate_from_measurements self few length_mm
          = (self, Inr (ctePpmPerC self))"
    by (simp add: CoefficientOfThermalExpansion_calculate_from_measurements_def)
  show ?thesis
    using CoefficientOfThermalExpansion_slope [OF assms, of self]
      hd_sort_key_Min [OF ne, of temperatureC_of] last_sort_key_Max [OF ne, of temperatureC_of]
      few
    by (simp only: simp_thms)
qed

theorem cte_two_endpoint_slope_witness:
  "2 \<le> length [[''temperatureC'' \<mapsto> 125, ''dimensionChangeMicron'' \<mapsto> 50],
               [''temperatureC'' \<mapsto> 25, ''dimensionChangeMicron'' \<mapsto> (0::real)]] \<and>
   (10 :: real) > 0 \<and>
   list_all tma_reading [[''temperatureC'' \<mapsto> 125, ''dimensionChangeMicron'' \<mapsto> 50],
                         [''temperatureC'' \<mapsto> 25, ''dimensionChangeMicron'' \<mapsto> 0]] \<and>
   length [[''temperatureC'' \<mapsto> 25, ''dimensionChangeMicron'' \<mapsto> (0::real)]] < 2 \<and>
   CoefficientOfThermalExpansion_calculate_from_measurements
     CoefficientOfThermalExpansion_default
     [[''temperatureC'' \<mapsto> 125, ''dimensionChangeMicron'' \<mapsto> 50],
      [''temperatureC'' \<mapsto> 25, ''dimensionChangeMicron'' \<mapsto> 0]] 10
     = (CoefficientOfThermalExpansion_default
          \<lparr>ctePpmPerC := 50, temperatureRangeLowC := 25, temperatureRangeHighC := 125\<rparr>,
        Inr 50) \<and>
   CoefficientOfThermalExpansion_calculate_from_measurements
     CoefficientOfThermalExpansion_default
     [[''temperatureC'' \<mapsto> 25, ''dimensionChangeMicron'' \<mapsto> 0]] 10
     = (CoefficientOfThermalExpansion_default, Inr 0)"
  using cte_two_endpoint_slope
    [of "[[''temperatureC'' \<mapsto> 125, ''dimensionChangeMicron'' \<mapsto> 50],
          [''temperatureC'' \<mapsto> 25, ''dimensionChangeMicron'' \<mapsto> 0]]" 10
        CoefficientOfThermalExpansion_default
        "[[''temperatureC'' \<mapsto> 25, ''dimensionChangeMicron'' \<mapsto> 0]]" 10]
  by (simp add: tma_reading_def temperatureC_of_def dimensionChangeMicron_of_def Let_def
        CoefficientOfThermalExpansion_default_def level2_init_defs record_build_defs)

text \<open>
  Claim C6, as stated, fails: the thermal-expansion derivation also overwrites
  \<open>temperatureRangeLowC\<close> and \<open>temperatureRangeHighC\<close>, and the Owens-Wendt
  derivation overwrites \<open>dispersiveComponent\<close>, \<open>polarComponent\<close> and
  \<open>calculationMethod\<close> besides \<open>surfaceEnergyMNm\<close>; the object after the call
  differs from the object before in more than one field.
\<close>

theorem cte_overwrites_three_fields:
  "\<not> (\<exists>v. fst (CoefficientOfThermalExpansion_calculate_from_measurements
                 CoefficientOfThermalExpansion_default
                 [[''temperatureC'' \<mapsto> 30, ''dimensionChangeMicron'' \<mapsto> 0],
                  [''temperatureC'' \<mapsto> 130, ''dimensionChangeMicron'' \<mapsto> 50]] 10)
          = CoefficientOfThermalExpansion_default\<lparr>ctePpmPerC := v\<rparr>) \<and>
   \<not> (\<exists>v. fst (CriticalSurfaceTension_calculate_from_owens_wendt
                 CriticalSurfaceTension_default 70 0)
          = CriticalSurfaceTension_default\<lparr>surfaceEnergyMNm := v\<rparr>)"
proof (intro conjI notI; elim exE)
  fix v
  assume "fst (CoefficientOfThermalExpansion_calculate_from_measurements
                 CoefficientOfThermalExpansion_default
                 [[''temperatureC'' \<mapsto> 30, ''dimensionChangeMicron'' \<mapsto> 0],
                  [''temperatureC'' \<mapsto> 130, ''dimensionChangeMicron'' \<mapsto> 50]] 10)
          = CoefficientOfThermalExpansion_default\<lparr>ctePpmPerC := v\<rparr>"
  then have "temperatureRangeLowC (fst (CoefficientOfThermalExpansion_calculate_from_measurements
                 CoefficientOfThermalExpansion_default
                 [[''temperatureC'' \<mapsto> 30, ''dimensionChangeMicron'' \<mapsto> 0],
                  [''temperatureC'' \<mapsto> 130, ''dimensionChangeMicron'' \<mapsto> 50]] 10))
          = temperatureRangeLowC (CoefficientOfThermalExpansion_default\<lparr>ctePpmPerC := v\<rparr>)"
    by simp
  then show False
    by (simp add: CoefficientOfThermalExpansion_calculate_from_measurements_def sorted_by_def
          getattr_def CoefficientOfThermalExpansion_default_def level2_init_defs
          record_build_defs)
next
  fix v
  assume "fst (CriticalSurfaceTension_calculate_from_owens_wendt
                 CriticalSurfaceTension_default 70 0)
          = CriticalSurfaceTension_default\<lparr>surfaceEnergyMNm := v\<rparr>"
  then have "dispersiveComponent (fst (CriticalSurfaceTension_calculate_from_owens_wendt
                 CriticalSurfaceTension_default 70 0))
          = dispersiveComponent (CriticalSurfaceTension_default\<lparr>surfaceEnergyMNm := v\<rparr>)"
    by simp
  then show False
    by (simp add: CriticalSurfaceTension_closed_form Let_def owens_wendt_dispersive_zero
          CriticalSurfaceTension_default_def level2_init_defs record_build_defs)
qed

text \<open>
  Claim C6, amended.  Every derivation method overwrites at most its own result
  fields and leaves every other field of the object unchanged: the single
  reportable numeric field for hardness, Krebs viscosity, tensile strength,
  melt flow index, specific gravity and surface tension; \<open>ctePpmPerC\<close> with
  \<open>temperatureRangeLowC\<close> and \<open>temperatureRangeHighC\<close> for thermal expansion;
  \<open>dispersiveComponent\<close>, \<open>polarComponent\<close>, \<open>surfaceEnergyMNm\<close> and
  \<open>calculationMethod\<close> for Owens-Wendt.
\<close>

theorem derivation_overwrites_only_result_fields:
  "(\<exists>v. fst (HardnessScale_calculate_from_measurements h ms) = h\<lparr>hardnessValue := v\<rparr>) \<and>
   (\<exists>v. fst (KrebsViscosity_calculate_from_stormer_measurements k ms)
          = k\<lparr>viscosityKU := v\<rparr>) \<and>
   (\<exists>v. fst (UltimateTensileStrength_calculate_from_measurements u ms area)
          = u\<lparr>utsMPa := v\<rparr>) \<and>
   (\<exists>v. fst (MFIValue_calculate_from_measurements f ms) = f\<lparr>mfiGramsPer10Min := v\<rparr>) \<and>
   (\<exists>v. fst (ReferentialSpecificGravity_calculate_from_measurements g ms)
          = g\<lparr>specificGravityValue := v\<rparr>) \<and>
   (\<exists>v. fst (SurfaceTensionValue_calculate_from_measurements s ms)
          = s\<lparr>surfaceTensionMNm := v\<rparr>) \<and>
   (\<exists>v lo hi. fst (CoefficientOfThermalExpansion_calculate_from_measurements c ms len) =
      c\<lparr>ctePpmPerC := v, temperatureRangeLowC := lo, temperatureRangeHighC := hi\<rparr>) \<and>
   (\<exists>d p e. fst (CriticalSurfaceTension_calculate_from_owens_wendt t water_angle
                    diiodomethane_angle) =
      t\<lparr>dispersiveComponent := d, polarComponent := p, surfaceEnergyMNm := e,
        calculationMethod := ''Owens-Wendt''\<rparr>)"
  by (intro conjI HardnessScale_frame KrebsViscosity_frame UltimateTensileStrength_frame
        MFIValue_frame ReferentialSpecificGravity_frame SurfaceTensionValue_frame
        CoefficientOfThermalExpansion_frame CriticalSurfaceTension_frame)

text \<open>
  Claim C8, as stated, fails in its last clause.  \<open>self.ABSTRACTION_LEVEL\<close> is
  looked up on the object under construction, so when \<open>HardnessScale.__init__\<close>
  and \<open>Hardness.__init__\<close> run on a ShoreMeasurement (here with the arguments
  that the default ShoreMeasurement passes up) they assign 3, the constant of
  ShoreMeasurement: the value 2 is never assigned.
\<close>

theorem parent_initializer_assigns_own_level:
  "Hardness.abstractionLevel (HardnessScale_init ShoreMeasurement_cls [] 0 ''Shore A'' 23 [] [])
     = 3 \<and>
   Hardness.abstractionLevel (HardnessScale_init ShoreMeasurement_cls [] 0 ''Shore A'' 23 [] [])
     \<noteq> 2 \<and>
   Hardness.abstractionLevel
     (Hardness_init ShoreMeasurement_cls ''Hardness Scale'' ''Derived hardness on Shore A scale'' [])
     = 3"
  by (simp add: level2_init_defs record_build_defs)

text \<open>
  Claim C8, amended.  For each of the 39 classes that carry \<open>ABSTRACTION_LEVEL\<close>
  and every combination of constructor arguments, the constructed object's
  \<open>abstractionLevel\<close> is the constant of the concrete class: no constructor takes
  the level as an argument, and each ends by assigning \<open>self.ABSTRACTION_LEVEL\<close>
  (MFIMeasurement and WilhelmyMeasurement then compute a derived reading, which
  leaves the level alone).  A ShoreMeasurement finishes construction with level
  3, and the initializers of its base classes HardnessScale and Hardness, run on
  it, assign 3 as well, never 2.  No method of these classes changes the level
  after construction: the eight derivation methods and the thirteen methods of
  single measurements and derived values return an object with the level it had.
\<close>

theorem abstraction_level_is_class_constant:
  "(\<forall>name' description' materialId'.
      SpecificGravity.abstractionLevel
        (SpecificGravity_init SpecificGravity_cls name' description' materialId')
        = ABSTRACTION_LEVEL SpecificGravity_cls) \<and>
   (\<forall>materialId' referentialSpecificGravityId' sequenceNumber' densityValue' specificGravityValue' oscillationFrequency' temperature' referenceDensity' measurementDate' operator' equipment' calibrationDate' notes'.
      SpecificGravity.abstractionLevel
        (DensityMeterMeasurement_init DensityMeterMeasurement_cls materialId'
          referentialSpecificGravityId' sequenceNumber' densityValue' specificGravityValue'
          oscillationFrequency' temperature' referenceDensity' measurementDate' operator'
          equipment' calibrationDate' notes')
        = ABSTRACTION_LEVEL DensityMeterMeasurement_cls) \<and>
   (\<forall>materialId' referentialSpecificGravityId' sequenceNumber' scaleReading' specificGravityValue' scaleType' temperature' calibrationTemperature' measurementDate' operator' equipment' notes'.
      SpecificGravity.abstractionLevel
        (HydrometerMeasurement_init HydrometerMeasurement_cls materialId'
          referentialSpecificGravityId' sequenceNumber' scaleReading' specificGravityValue'
          scaleType' temperature' calibrationTemperature' measurementDate' operator' equipment'
          notes')
        = ABSTRACTION_LEVEL HydrometerMeasurement_cls) \<and>
   (\<forall>materialId' referentialSpecificGravityId' sequenceNumber' emptyWeight' referenceWeight' sampleWeight' specificGravityValue' temperature' pycnometerVolume' measurementDate' operator' equipment' notes'.
      SpecificGravity.abstractionLevel
        (PycnometerMeasurement_init PycnometerMeasurement_cls materialId'
          referentialSpecificGravityId' sequenceNumber' emptyWeight' referenceWeight'
          sampleWeight' specificGravityValue' temperature' pycnometerVolume' measurementDate'
          operator' equipment' notes')
        = ABSTRACTION_LEVEL PycnometerMeasurement_cls) \<and>
   (\<forall>materialId' specificGravityValue' referenceMaterial' referenceTemperature' sampleTemperature' measurementDate' notes'.
      SpecificGravity.abstractionLevel
        (ReferentialSpecificGravity_init ReferentialSpecificGravity_cls materialId'
          specificGravityValue' referenceMaterial' referenceTemperature' sampleTemperature'
          measurementDate' notes')
        = ABSTRACTION_LEVEL ReferentialSpecificGravity_cls) \<and>
   (\<forall>name' description' materialId'.
      Hardness.abstractionLevel
        (Hardness_init Hardness_cls name' description' materialId')
        = ABSTRACTION_LEVEL Hardness_cls) \<and>
   (\<forall>name' description' materialId'.
      TensileStrength.abstractionLevel
        (TensileStrength_init TensileStrength_cls name' description' materialId')
        = ABSTRACTION_LEVEL TensileStrength_cls) \<and>
   (\<forall>name' description' materialId'.
      Elasticity.abstractionLevel
        (Elasticity_init Elasticity_cls name' description' materialId')
        = ABSTRACTION_LEVEL Elasticity_cls) \<and>
   (\<forall>name' description' materialId'.
      MeltFlowIndex.abstractionLevel
        (MeltFlowIndex_init MeltFlowIndex_cls name' description' materialId')
        = ABSTRACTION_LEVEL MeltFlowIndex_cls) \<and>
   (\<forall>name' description' materialId'.
      Viscosity.abstractionLevel
        (Viscosity_init Viscosity_cls name' description' materialId')
        = ABSTRACTION_LEVEL Viscosity_cls) \<and>
   (\<forall>name' description' materialId'.
      LiquidSurfaceTension.abstractionLevel
        (LiquidSurfaceTension_init LiquidSurfaceTension_cls name' description' materialId')
        = ABSTRACTION_LEVEL LiquidSurfaceTension_cls) \<and>
   (\<forall>name' description' materialId'.
      SolidSurfaceEnergy.abstractionLevel
        (SolidSurfaceEnergy_init SolidSurfaceEnergy_cls name' description' materialId')
        = ABSTRACTION_LEVEL SolidSurfaceEnergy_cls) \<and>
   (\<forall>name' description' materialId'.
      GlassTransition.abstractionLevel
        (GlassTransition_init GlassTransition_cls name' description' materialId')
        = ABSTRACTION_LEVEL GlassTransition_cls) \<and>
   (\<forall>name' description' materialId'.
      MeltingPoint.abstractionLevel
        (MeltingPoint_init MeltingPoint_cls name' description' materialId')
        = ABSTRACTION_LEVEL MeltingPoint_cls) \<and>
   (\<forall>name' description' materialId'.
      SmokingPoint.abstractionLevel
        (SmokingPoint_init SmokingPoint_cls name' description' materialId')
        = ABSTRACTION_LEVEL SmokingPoint_cls) \<and>
   (\<forall>name' description' materialId'.
      ThermalExpansion.abstractionLevel
        (ThermalExpansion_init ThermalExpansion_cls name' description' materialId')
        = ABSTRACTION_LEVEL ThermalExpansion_cls) \<and>
   (\<forall>materialId' hardnessValue' scale' temperature' measurementDate' notes'.
      Hardness.abstractionLevel
        (HardnessScale_init HardnessScale_cls materialId' hardnessValue' scale' temperature'
          measurementDate' notes')
        = ABSTRACTION_LEVEL HardnessScale_cls) \<and>
   (\<forall>materialId' utsMPa' yieldStrengthMPa' elongationAtBreak' youngsModulusMPa' specimenType' testSpeed' temperature' measurementDate' notes'.
      TensileStrength.abstractionLevel
        (UltimateTensileStrength_init UltimateTensileStrength_cls materialId' utsMPa'
          yieldStrengthMPa' elongationAtBreak' youngsModulusMPa' specimenType' testSpeed'
          temperature' measurementDate' notes')
        = ABSTRACTION_LEVEL UltimateTensileStrength_cls) \<and>
   (\<forall>materialId' storageModulusPa' lossModulusPa' lossFactor' frequency' temperature' measurementDate' notes'.
      Elasticity.abstractionLevel
        (StorageModulus_init StorageModulus_cls materialId' storageModulusPa' lossModulusPa'
          lossFactor' frequency' temperature' measurementDate' notes')
        = ABSTRACTION_LEVEL StorageModulus_cls) \<and>
   (\<forall>materialId' mfiGramsPer10Min' testTemperature' testLoad' polymerType' measurementDate' notes'.
      MeltFlowIndex.abstractionLevel
        (MFIValue_init MFIValue_cls materialId' mfiGramsPer10Min' testTemperature' testLoad'
          polymerType' measurementDate' notes')
        = ABSTRACTION_LEVEL MFIValue_cls) \<and>
   (\<forall>materialId' viscosityKU' temperature' measurementDate' notes'.
      Viscosity.abstractionLevel
        (KrebsViscosity_init KrebsViscosity_cls materialId' viscosityKU' temperature'
          measurementDate' notes')
        = ABSTRACTION_LEVEL KrebsViscosity_cls) \<and>
   (\<forall>materialId' krebsViscosityId' sequenceNumber' time' revolutions' grams' temperature' measurementDate' operator' equipment' notes'.
      Viscosity.abstractionLevel
        (StormerViscosity_init StormerViscosity_cls materialId' krebsViscosityId'
          sequenceNumber' time' revolutions' grams' temperature' measurementDate' operator'
          equipment' notes')
        = ABSTRACTION_LEVEL StormerViscosity_cls) \<and>
   (\<forall>materialId' surfaceTensionMNm' interfacialTensionMNm' secondPhase' measurementMethod' temperature' measurementDate' notes'.
      LiquidSurfaceTension.abstractionLevel
        (SurfaceTensionValue_init SurfaceTensionValue_cls materialId' surfaceTensionMNm'
          interfacialTensionMNm' secondPhase' measurementMethod' temperature' measurementDate'
          notes')
        = ABSTRACTION_LEVEL SurfaceTensionValue_cls) \<and>
   (\<forall>materialId' surfaceEnergyMNm' dispersiveComponent' polarComponent' calculationMethod' temperature' measurementDate' notes'.
      SolidSurfaceEnergy.abstractionLevel
        (CriticalSurfaceTension_init CriticalSurfaceTension_cls materialId' surfaceEnergyMNm'
          dispersiveComponent' polarComponent' calculationMethod' temperature' measurementDate'
          notes')
        = ABSTRACTION_LEVEL CriticalSurfaceTension_cls) \<and>
   (\<forall>materialId' tgCelsius' tgOnset' tgMidpoint' tgEndset' deltaCp' measurementMethod' heatingRate' frequency' measurementDate' notes'.
      GlassTransition.abstractionLevel
        (GlassTransitionTemp_init GlassTransitionTemp_cls materialId' tgCelsius' tgOnset'
          tgMidpoint' tgEndset' deltaCp' measurementMethod' heatingRate' frequency'
          measurementDate' notes')
        = ABSTRACTION_LEVEL GlassTransitionTemp_cls) \<and>
   (\<forall>materialId' meltingPointC' meltingPointOnsetC' meltingPointPeakC' heatOfFusionJg' crystallinityPercent' measurementMethod' heatingRate' measurementDate' notes'.
      MeltingPoint.abstractionLevel
        (MeltingPointValue_init MeltingPointValue_cls materialId' meltingPointC'
          meltingPointOnsetC' meltingPointPeakC' heatOfFusionJg' crystallinityPercent'
          measurementMethod' heatingRate' measurementDate' notes')
        = ABSTRACTION_LEVEL MeltingPointValue_cls) \<and>
   (\<forall>materialId' smokingPointC' flashPointC' firePointC' measurementMethod' heatingRate' measurementDate' notes'.
      SmokingPoint.abstractionLevel
        (SmokingPointValue_init SmokingPointValue_cls materialId' smokingPointC' flashPointC'
          firePointC' measurementMethod' heatingRate' measurementDate' notes')
        = ABSTRACTION_LEVEL SmokingPointValue_cls) \<and>
   (\<forall>materialId' ctePpmPerC' temperatureRangeLowC' temperatureRangeHighC' expansionType' direction' measurementMethod' heatingRate' measurementDate' notes'.
      ThermalExpansion.abstractionLevel
        (CoefficientOfThermalExpansion_init CoefficientOfThermalExpansion_cls materialId'
          ctePpmPerC' temperatureRangeLowC' temperatureRangeHighC' expansionType' direction'
          measurementMethod' heatingRate' measurementDate' notes')
        = ABSTRACTION_LEVEL CoefficientOfThermalExpansion_cls) \<and>
   (\<forall>materialId' hardnessScaleId' sequenceNumber' hardnessReading' shoreType' readingTime' sampleThickness' locationOnSample' temperature' measurementDate' operator' equipment' notes' openSourceImplementationExists'.
      Hardness.abstractionLevel
        (ShoreMeasurement_init ShoreMeasurement_cls materialId' hardnessScaleId'
          sequenceNumber' hardnessReading' shoreType' readingTime' sampleThickness'
          locationOnSample' temperature' measurementDate' operator' equipment' notes'
          openSourceImplementationExists')
        = ABSTRACTION_LEVEL ShoreMeasurement_cls) \<and>
   (\<forall>materialId' utsId' sequenceNumber' forceN' displacementMm' time' gaugeLength' specimenWidth' specimenThickness' extensometerStrain' testSpeed' temperature' measurementDate' operator' equipment' notes' openSourceImplementationExists'.
      TensileStrength.abstractionLevel
        (TensileMeasurement_init TensileMeasurement_cls materialId' utsId' sequenceNumber'
          forceN' displacementMm' time' gaugeLength' specimenWidth' specimenThickness'
          extensometerStrain' testSpeed' temperature' measurementDate' operator' equipment'
          notes' openSourceImplementationExists')
        = ABSTRACTION_LEVEL TensileMeasurement_cls) \<and>
   (\<forall>materialId' storageModulusId' sequenceNumber' strain' stress' phaseAngle' storageModulusPa' lossModulusPa' frequency' sampleLength' sampleWidth' sampleThickness' clampType' temperature' measurementDate' operator' equipment' notes' openSourceImplementationExists'.
      Elasticity.abstractionLevel
        (DMAMeasurement_init DMAMeasurement_cls materialId' storageModulusId' sequenceNumber'
          strain' stress' phaseAngle' storageModulusPa' lossModulusPa' frequency' sampleLength'
          sampleWidth' sampleThickness' clampType' temperature' measurementDate' operator'
          equipment' notes' openSourceImplementationExists')
        = ABSTRACTION_LEVEL DMAMeasurement_cls) \<and>
   (\<forall>materialId' storageModulusId' sequenceNumber' geometry' gapDistance' strain' shearRate' torque' normalForce' storageModulusPa' lossModulusPa' frequency' temperature' measurementDate' operator' equipment' notes' openSourceImplementationExists'.
      Elasticity.abstractionLevel
        (RheometerMeasurement_init RheometerMeasurement_cls materialId' storageModulusId'
          sequenceNumber' geometry' gapDistance' strain' shearRate' torque' normalForce'
          storageModulusPa' lossModulusPa' frequency' temperature' measurementDate' operator'
          equipment' notes' openSourceImplementationExists')
        = ABSTRACTION_LEVEL RheometerMeasurement_cls) \<and>
   (\<forall>materialId' mfiValueId' sequenceNumber' extrusionTime' extrudateMass' preheatTime' barrelTemperature' testLoad' dieDiameter' dieLength' measurementDate' operator' equipment' notes' openSourceImplementationExists'.
      MeltFlowIndex.abstractionLevel
        (MFIMeasurement_init MFIMeasurement_cls materialId' mfiValueId' sequenceNumber'
          extrusionTime' extrudateMass' preheatTime' barrelTemperature' testLoad' dieDiameter'
          dieLength' measurementDate' operator' equipment' notes'
          openSourceImplementationExists')
        = ABSTRACTION_LEVEL MFIMeasurement_cls) \<and>
   (\<forall>materialId' surfaceTensionValueId' sequenceNumber' forceMN' platePerimeterMm' plateMaterial' contactAngle' immersionDepthMm' temperature' measurementDate' operator' equipment' notes' openSourceImplementationExists'.
      LiquidSurfaceTension.abstractionLevel
        (WilhelmyMeasurement_init WilhelmyMeasurement_cls materialId' surfaceTensionValueId'
          sequenceNumber' forceMN' platePerimeterMm' plateMaterial' contactAngle'
          immersionDepthMm' temperature' measurementDate' operator' equipment' notes'
          openSourceImplementationExists')
        = ABSTRACTION_LEVEL WilhelmyMeasurement_cls) \<and>
   (\<forall>materialId' surfaceEnergyId' sequenceNumber' contactAngle' probeLiquid' probeLiquidSurfaceTension' dropVolume' measurementType' leftAngle' rightAngle' humidity' temperature' measurementDate' operator' equipment' software' notes' openSourceImplementationExists'.
      SolidSurfaceEnergy.abstractionLevel
        (ContactAngleMeasurement_init ContactAngleMeasurement_cls materialId' surfaceEnergyId'
          sequenceNumber' contactAngle' probeLiquid' probeLiquidSurfaceTension' dropVolume'
          measurementType' leftAngle' rightAngle' humidity' temperature' measurementDate'
          operator' equipment' software' notes' openSourceImplementationExists')
        = ABSTRACTION_LEVEL ContactAngleMeasurement_cls) \<and>
   (\<forall>materialId' glassTransitionTempId' sequenceNumber' temperatureC' storageModulusPa' lossModulusPa' tanDelta' frequency' strain' clampType' sampleLength' sampleWidth' sampleThickness' heatingRate' measurementDate' operator' equipment' notes' openSourceImplementationExists'.
      GlassTransition.abstractionLevel
        (DMAGlassTransitionMeasurement_init DMAGlassTransitionMeasurement_cls materialId'
          glassTransitionTempId' sequenceNumber' temperatureC' storageModulusPa' lossModulusPa'
          tanDelta' frequency' strain' clampType' sampleLength' sampleWidth' sampleThickness'
          heatingRate' measurementDate' operator' equipment' notes'
          openSourceImplementationExists')
        = ABSTRACTION_LEVEL DMAGlassTransitionMeasurement_cls) \<and>
   (\<forall>materialId' meltingPointValueId' sequenceNumber' temperatureC' heatFlowMW' time' sampleMassMg' panType' atmosphere' flowRateMlMin' heatingRate' measurementDate' operator' equipment' notes' openSourceImplementationExists'.
      MeltingPoint.abstractionLevel
        (DSCMeltingMeasurement_init DSCMeltingMeasurement_cls materialId' meltingPointValueId'
          sequenceNumber' temperatureC' heatFlowMW' time' sampleMassMg' panType' atmosphere'
          flowRateMlMin' heatingRate' measurementDate' operator' equipment' notes'
          openSourceImplementationExists')
        = ABSTRACTION_LEVEL DSCMeltingMeasurement_cls) \<and>
   (\<forall>materialId' smokingPointValueId' sequenceNumber' observedTemperatureC' cupType' sampleVolumeMl' heatingRate' ambientTemperature' humidity' detectionMethod' measurementDate' operator' equipment' notes' openSourceImplementationExists'.
      SmokingPoint.abstractionLevel
        (SmokingPointMeasurement_init SmokingPointMeasurement_cls materialId'
          smokingPointValueId' sequenceNumber' observedTemperatureC' cupType' sampleVolumeMl'
          heatingRate' ambientTemperature' humidity' detectionMethod' measurementDate'
          operator' equipment' notes' openSourceImplementationExists')
        = ABSTRACTION_LEVEL SmokingPointMeasurement_cls) \<and>
   (\<forall>materialId' cteId' sequenceNumber' temperatureC' dimensionChangeMicron' time' originalLengthMm' probeForceN' probeType' atmosphere' heatingRate' measurementDate' operator' equipment' notes' openSourceImplementationExists'.
      ThermalExpansion.abstractionLevel
        (TMAMeasurement_init TMAMeasurement_cls materialId' cteId' sequenceNumber'
          temperatureC' dimensionChangeMicron' time' originalLengthMm' probeForceN' probeType'
          atmosphere' heatingRate' measurementDate' operator' equipment' notes'
          openSourceImplementationExists')
        = ABSTRACTION_LEVEL TMAMeasurement_cls) \<and>
   (\<forall>materialId' hardnessScaleId' sequenceNumber' hardnessReading' shoreType' readingTime' sampleThickness' locationOnSample' temperature' measurementDate' operator' equipment' notes' openSourceImplementationExists'.
      Hardness.abstractionLevel
        (ShoreMeasurement_init ShoreMeasurement_cls materialId' hardnessScaleId'
          sequenceNumber' hardnessReading' shoreType' readingTime' sampleThickness'
          locationOnSample' temperature' measurementDate' operator' equipment' notes'
          openSourceImplementationExists') = 3) \<and>
   (\<forall>materialId' hardnessValue' scale' temperature' measurementDate' notes'.
      Hardness.abstractionLevel
        (HardnessScale_init ShoreMeasurement_cls materialId' hardnessValue' scale' temperature'
          measurementDate' notes') = 3) \<and>
   (\<forall>name' description' materialId'.
      Hardness.abstractionLevel
        (Hardness_init ShoreMeasurement_cls name' description' materialId') = 3) \<and>
   Hardness.abstractionLevel (fst (HardnessScale_calculate_from_measurements h ms))
     = Hardness.abstractionLevel h \<and>
   Viscosity.abstractionLevel (fst (KrebsViscosity_calculate_from_stormer_measurements k ms))
     = Viscosity.abstractionLevel k \<and>
   TensileStrength.abstractionLevel
     (fst (UltimateTensileStrength_calculate_from_measurements u ms area))
     = TensileStrength.abstractionLevel u \<and>
   ThermalExpansion.abstractionLevel
     (fst (CoefficientOfThermalExpansion_calculate_from_measurements e ms len))
     = ThermalExpansion.abstractionLevel e \<and>
   MeltFlowIndex.abstractionLevel (fst (MFIValue_calculate_from_measurements f ms))
     = MeltFlowIndex.abstractionLevel f \<and>
   SpecificGravity.abstractionLevel
     (fst (ReferentialSpecificGravity_calculate_from_measurements g ms))
     = SpecificGravity.abstractionLevel g \<and>
   LiquidSurfaceTension.abstractionLevel
     (fst (SurfaceTensionValue_calculate_from_measurements s ms))
     = LiquidSurfaceTension.abstractionLevel s \<and>
   SolidSurfaceEnergy.abstractionLevel
     (fst (CriticalSurfaceTension_calculate_from_owens_wendt t water_angle
             diiodomethane_angle))
     = SolidSurfaceEnergy.abstractionLevel t \<and>
   (\<forall>self.
      TensileStrength.abstractionLevel (fst (TensileMeasurement_calculate_engineering_stress self))
        = TensileStrength.abstractionLevel self) \<and>
   (\<forall>self.
      TensileStrength.abstractionLevel (fst (TensileMeasurement_calculate_engineering_strain self))
        = TensileStrength.abstractionLevel self) \<and>
   (\<forall>self.
      SpecificGravity.abstractionLevel (fst (PycnometerMeasurement_calculate_specific_gravity self))
        = SpecificGravity.abstractionLevel self) \<and>
   (\<forall>self.
      SpecificGravity.abstractionLevel (fst (HydrometerMeasurement_convert_to_specific_gravity self))
        = SpecificGravity.abstractionLevel self) \<and>
   (\<forall>self.
      SpecificGravity.abstractionLevel (fst (DensityMeterMeasurement_calculate_specific_gravity self))
        = SpecificGravity.abstractionLevel self) \<and>
   (\<forall>self.
      Elasticity.abstractionLevel (fst (StorageModulus_calculate_complex_modulus self))
        = Elasticity.abstractionLevel self) \<and>
   (\<forall>self.
      Elasticity.abstractionLevel (fst (StorageModulus_calculate_loss_factor self))
        = Elasticity.abstractionLevel self) \<and>
   (\<forall>self.
      GlassTransition.abstractionLevel (fst (DMAGlassTransitionMeasurement_calculate_tan_delta self))
        = GlassTransition.abstractionLevel self) \<and>
   (\<forall>self.
      ThermalExpansion.abstractionLevel (fst (TMAMeasurement_calculate_strain_percent self))
        = ThermalExpansion.abstractionLevel self) \<and>
   (\<forall>self.
      MeltingPoint.abstractionLevel (fst (DSCMeltingMeasurement_normalize_heat_flow self))
        = MeltingPoint.abstractionLevel self) \<and>
   (\<forall>self reference_heat_of_fusion.
      MeltingPoint.abstractionLevel (fst (MeltingPointValue_calculate_crystallinity self reference_heat_of_fusion))
        = MeltingPoint.abstractionLevel self) \<and>
   (\<forall>self.
      SolidSurfaceEnergy.abstractionLevel (fst (ContactAngleMeasurement_calculate_average_angle self))
        = SolidSurfaceEnergy.abstractionLevel self) \<and>
   (\<forall>self.
      LiquidSurfaceTension.abstractionLevel (WilhelmyMeasurement_calculate_surface_tension self)
        = LiquidSurfaceTension.abstractionLevel self)"
  by (intro conjI allI)
     (simp_all only: 
        SpecificGravity_init_level DensityMeterMeasurement_init_level
          HydrometerMeasurement_init_level PycnometerMeasurement_init_level
          ReferentialSpecificGravity_init_level Hardness_init_level TensileStrength_init_level
          Elasticity_init_level MeltFlowIndex_init_level Viscosity_init_level
          LiquidSurfaceTension_init_level SolidSurfaceEnergy_init_level
          GlassTransition_init_level MeltingPoint_init_level SmokingPoint_init_level
          ThermalExpansion_init_level HardnessScale_init_level
          UltimateTensileStrength_init_level StorageModulus_init_level MFIValue_init_level
          KrebsViscosity_init_level StormerViscosity_init_level SurfaceTensionValue_init_level
          CriticalSurfaceTension_init_level GlassTransitionTemp_init_level
          MeltingPointValue_init_level SmokingPointValue_init_level
          CoefficientOfThermalExpansion_init_level ShoreMeasurement_init_level
          TensileMeasurement_init_level DMAMeasurement_init_level
          RheometerMeasurement_init_level MFIMeasurement_init_level
          WilhelmyMeasurement_init_level ContactAngleMeasurement_init_level
          DMAGlassTransitionMeasurement_init_level DSCMeltingMeasurement_init_level
          SmokingPointMeasurement_init_level TMAMeasurement_init_level
          TensileMeasurement_calculate_engineering_stress_level
          TensileMeasurement_calculate_engineering_strain_level
          PycnometerMeasurement_calculate_specific_gravity_level
          HydrometerMeasurement_convert_to_specific_gravity_level
          DensityMeterMeasurement_calculate_specific_gravity_level
          StorageModulus_calculate_complex_modulus_level
          StorageModulus_calculate_loss_factor_level
          DMAGlassTransitionMeasurement_calculate_tan_delta_level
          TMAMeasurement_calculate_strain_percent_level
          DSCMeltingMeasurement_normalize_heat_flow_level
          MeltingPointValue_calculate_crystallinity_level
          ContactAngleMeasurement_calculate_average_angle_level
          WilhelmyMeasurement_calculate_surface_tension_level derivation_keeps_abstractionLevel
          ABSTRACTION_LEVEL.simps)

text \<open>
  Claim C10.  For a non-empty list of measurements and a positive cross-section
  area in which no record has a positive \<open>forceN\<close>, the tensile derivation
  overwrites the stored \<open>utsMPa\<close> with 0 and returns 0.  The mean-based
  derivations leave their object unchanged when no reading counts: hardness and
  specific gravity return the stored value; Krebs viscosity and melt flow index
  return the stored value when every record has the attributes the loop reads,
  and otherwise raise with the object unchanged.
\<close>

theorem uts_resets_without_valid_reading:
  "(measurements \<noteq> [] \<and> area > 0 \<and>
      list_all (not_positive ''forceN'') measurements \<longrightarrow>
    UltimateTensileStrength_calculate_from_measurements u measurements area
      = (u\<lparr>utsMPa := 0\<rparr>, 0)) \<and>
   (list_all (not_positive ''hardnessReading'') hs \<longrightarrow>
    HardnessScale_calculate_from_measurements h hs = (h, hardnessValue h)) \<and>
   (list_all (not_positive ''specificGravityValue'') gs \<longrightarrow>
    ReferentialSpecificGravity_calculate_from_measurements g gs
      = (g, specificGravityValue g)) \<and>
   (list_all (\<lambda>m. \<not> stormer_counted m) ks \<longrightarrow>
    KrebsViscosity_calculate_from_stormer_measurements k ks =
      (k, if list_all stormer_readable ks then Inr (viscosityKU k) else Inl AttributeError)) \<and>
   (list_all (\<lambda>m. \<not> mfi_counted m) fs \<longrightarrow>
    MFIValue_calculate_from_measurements f fs =
      (f, if list_all mfi_readable fs then Inr (mfiGramsPer10Min f)
          else Inl AttributeError))"
  using UltimateTensileStrength_no_valid [of measurements area u]
    HardnessScale_no_valid [of hs h] ReferentialSpecificGravity_no_valid [of gs g]
    KrebsViscosity_no_valid [of ks k] MFIValue_no_valid [of fs f]
  by blast

theorem uts_resets_without_valid_reading_witness:
  "[skipped_record, Map.empty] \<noteq> [] \<and> (10 :: real) > 0 \<and>
   list_all (not_positive ''forceN'') [skipped_record, Map.empty] \<and>
   list_all (not_positive ''hardnessReading'') [skipped_record] \<and>
   list_all (not_positive ''specificGravityValue'') [skipped_record] \<and>
   list_all (\<lambda>m. \<not> stormer_counted m) [skipped_record] \<and>
   list_all (\<lambda>m. \<not> mfi_counted m) [skipped_record] \<and>
   UltimateTensileStrength_calculate_from_measurements
     (UltimateTensileStrength_default\<lparr>utsMPa := 40\<rparr>) [skipped_record, Map.empty] 10
     = (UltimateTensileStrength_default\<lparr>utsMPa := 0\<rparr>, 0) \<and>
   HardnessScale_calculate_from_measurements (HardnessScale_default\<lparr>hardnessValue := 72\<rparr>)
     [skipped_record]
     = (HardnessScale_default\<lparr>hardnessValue := 72\<rparr>, 72) \<and>
   ReferentialSpecificGravity_calculate_from_measurements
     (ReferentialSpecificGravity_default\<lparr>specificGravityValue := 1.1\<rparr>) [skipped_record]
     = (ReferentialSpecificGravity_default\<lparr>specificGravityValue := 1.1\<rparr>, 1.1) \<and>
   KrebsViscosity_calculate_from_stormer_measurements
     (KrebsViscosity_default\<lparr>viscosityKU := 90\<rparr>) [skipped_record]
     = (KrebsViscosity_default\<lparr>viscosityKU := 90\<rparr>, Inr 90) \<and>
   MFIValue_calculate_from_measurements (MFIValue_default\<lparr>mfiGramsPer10Min := 12\<rparr>)
     [skipped_record]
     = (MFIValue_default\<lparr>mfiGramsPer10Min := 12\<rparr>, Inr 12)"
proof -
  have hyps:
    "list_all (not_positive ''forceN'') [skipped_record, Map.empty]"
    "list_all (not_positive ''hardnessReading'') [skipped_record]"
    "list_all (not_positive ''specificGravityValue'') [skipped_record]"
    "list_all (\<lambda>m. \<not> stormer_counted m) [skipped_record]"
    "list_all (\<lambda>m. \<not> mfi_counted m) [skipped_record]"
    "list_all stormer_readable [skipped_record]"
    "list_all mfi_readable [skipped_record]"
    by (simp_all add: not_positive_def stormer_counted_def mfi_counted_def
          stormer_readable_def mfi_readable_def skipped_record_def)
  show ?thesis
    using uts_resets_without_valid_reading
      [where measurements = "[skipped_record, Map.empty]" and area = 10
         and u = "UltimateTensileStrength_default\<lparr>utsMPa := 40\<rparr>"
         and hs = "[skipped_record]" and h = "HardnessScale_default\<lparr>hardnessValue := 72\<rparr>"
         and gs = "[skipped_record]"
         and g = "ReferentialSpecificGravity_default\<lparr>specificGravityValue := 1.1\<rparr>"
         and ks = "[skipped_record]" and k = "KrebsViscosity_default\<lparr>viscosityKU := 90\<rparr>"
         and fs = "[skipped_record]" and f = "MFIValue_default\<lparr>mfiGramsPer10Min := 12\<rparr>"]
      hyps
    by simp
qed

end
